theory Spec2Isabelle
  imports Complex_Main
begin

section \<open>NumPy double-precision values\<close>

text \<open>
  The program computes on NumPy \<open>float64\<close> arrays. A value is either a finite real number
  or one of the three special values of IEEE 754 that NumPy produces instead of raising
  (division by zero and invalid operations only emit a warning). Finite arithmetic is exact:
  rounding, overflow and underflow of the 64-bit format are not part of this model, and the
  two zeros of IEEE 754 are one value (where the sign of a zero could matter, the program
  squares the quotient or takes its absolute value).
\<close>

datatype float64 = Fin real | PInf | NInf | NaN

fun fneg :: "float64 \<Rightarrow> float64" where
  "fneg (Fin a) = Fin (- a)"
| "fneg PInf = NInf"
| "fneg NInf = PInf"
| "fneg NaN = NaN"

fun fadd :: "float64 \<Rightarrow> float64 \<Rightarrow> float64" where
  "fadd NaN _ = NaN"
| "fadd _ NaN = NaN"
| "fadd (Fin a) (Fin b) = Fin (a + b)"
| "fadd (Fin a) PInf = PInf"
| "fadd (Fin a) NInf = NInf"
| "fadd PInf (Fin b) = PInf"
| "fadd NInf (Fin b) = NInf"
| "fadd PInf PInf = PInf"
| "fadd NInf NInf = NInf"
| "fadd PInf NInf = NaN"
| "fadd NInf PInf = NaN"

text \<open>An infinity with the sign of a real number; the model's single zero counts as \<open>+0\<close>.\<close>

definition inf_signed :: "real \<Rightarrow> float64" where
  "inf_signed a = (if a < 0 then NInf else PInf)"

fun fmul :: "float64 \<Rightarrow> float64 \<Rightarrow> float64" where
  "fmul NaN _ = NaN"
| "fmul _ NaN = NaN"
| "fmul (Fin a) (Fin b) = Fin (a * b)"
| "fmul (Fin a) PInf = (if a = 0 then NaN else inf_signed a)"
| "fmul (Fin a) NInf = (if a = 0 then NaN else inf_signed (- a))"
| "fmul PInf (Fin b) = (if b = 0 then NaN else inf_signed b)"
| "fmul NInf (Fin b) = (if b = 0 then NaN else inf_signed (- b))"
| "fmul PInf PInf = PInf"
| "fmul NInf NInf = PInf"
| "fmul PInf NInf = NInf"
| "fmul NInf PInf = NInf"

fun fdiv :: "float64 \<Rightarrow> float64 \<Rightarrow> float64" where
  "fdiv NaN _ = NaN"
| "fdiv _ NaN = NaN"
| "fdiv (Fin a) (Fin b) =
     (if b \<noteq> 0 then Fin (a / b) else if a = 0 then NaN else inf_signed a)"
| "fdiv (Fin a) PInf = Fin 0"
| "fdiv (Fin a) NInf = Fin 0"
| "fdiv PInf (Fin b) = inf_signed b"
| "fdiv NInf (Fin b) = inf_signed (- b)"
| "fdiv PInf PInf = NaN"
| "fdiv PInf NInf = NaN"
| "fdiv NInf PInf = NaN"
| "fdiv NInf NInf = NaN"

fun fabs :: "float64 \<Rightarrow> float64" where
  "fabs (Fin a) = Fin \<bar>a\<bar>"
| "fabs PInf = PInf"
| "fabs NInf = PInf"
| "fabs NaN = NaN"

text \<open>The comparisons of IEEE 754: every comparison with \<open>NaN\<close> is false.\<close>

fun fless :: "float64 \<Rightarrow> float64 \<Rightarrow> bool" where
  "fless NaN _ = False"
| "fless _ NaN = False"
| "fless (Fin a) (Fin b) = (a < b)"
| "fless (Fin a) PInf = True"
| "fless (Fin a) NInf = False"
| "fless PInf _ = False"
| "fless NInf (Fin b) = True"
| "fless NInf PInf = True"
| "fless NInf NInf = False"

fun fle :: "float64 \<Rightarrow> float64 \<Rightarrow> bool" where
  "fle NaN _ = False"
| "fle _ NaN = False"
| "fle a b = (a = b \<or> fless a b)"

instantiation float64 :: "{zero, one, plus, minus, uminus, times, inverse, abs, ord}"
begin

definition zero_float64 :: float64 where "0 = Fin 0"
definition one_float64 :: float64 where "1 = Fin 1"
definition plus_float64 :: "float64 \<Rightarrow> float64 \<Rightarrow> float64" where "a + b = fadd a b"
definition uminus_float64 :: "float64 \<Rightarrow> float64" where "- a = fneg a"
definition minus_float64 :: "float64 \<Rightarrow> float64 \<Rightarrow> float64" where
  "a - b = fadd a (fneg b)"
definition times_float64 :: "float64 \<Rightarrow> float64 \<Rightarrow> float64" where "a * b = fmul a b"
definition divide_float64 :: "float64 \<Rightarrow> float64 \<Rightarrow> float64" where "a div b = fdiv a b"
definition inverse_float64 :: "float64 \<Rightarrow> float64" where "inverse a = fdiv (Fin 1) a"
definition abs_float64 :: "float64 \<Rightarrow> float64" where "\<bar>a\<bar> = fabs a"
definition less_float64 :: "float64 \<Rightarrow> float64 \<Rightarrow> bool" where "a < b = fless a b"
definition less_eq_float64 :: "float64 \<Rightarrow> float64 \<Rightarrow> bool" where "a \<le> b = fle a b"

instance ..

end

text \<open>
  \<open>x ** y\<close> on float arrays is C's \<open>pow\<close>: \<open>pow(x, 0) = 1\<close> and \<open>pow(1, y) = 1\<close> even for
  \<open>NaN\<close>, \<open>pow(0, y)\<close> is \<open>+inf\<close> for negative \<open>y\<close>, and a negative base with a non-integer
  exponent is invalid.
\<close>

definition pow_neg_base :: "real \<Rightarrow> real \<Rightarrow> float64" where
  "pow_neg_base a b =
     (if b = of_int \<lfloor>b\<rfloor> then Fin (a powi \<lfloor>b\<rfloor>) else NaN)"

fun np_power :: "float64 \<Rightarrow> float64 \<Rightarrow> float64" where
  "np_power x (Fin b) =
     (if b = 0 then Fin 1
      else case x of
        NaN \<Rightarrow> NaN
      | Fin a \<Rightarrow>
          if a > 0 then Fin (a powr b)
          else if a = 0 then (if b > 0 then Fin 0 else PInf)
          else pow_neg_base a b
      | PInf \<Rightarrow> (if b > 0 then PInf else Fin 0)
      | NInf \<Rightarrow>
          if b < 0 then Fin 0
          else if b = of_int \<lfloor>b\<rfloor> \<and> odd \<lfloor>b\<rfloor> then NInf else PInf)"
| "np_power x NaN = (if x = Fin 1 then Fin 1 else NaN)"
| "np_power x PInf =
     (case x of
        NaN \<Rightarrow> NaN
      | Fin a \<Rightarrow> if \<bar>a\<bar> = 1 then Fin 1 else if \<bar>a\<bar> < 1 then Fin 0 else PInf
      | _ \<Rightarrow> PInf)"
| "np_power x NInf =
     (case x of
        NaN \<Rightarrow> NaN
      | Fin a \<Rightarrow> if \<bar>a\<bar> = 1 then Fin 1 else if \<bar>a\<bar> < 1 then PInf else Fin 0
      | _ \<Rightarrow> Fin 0)"



fun np_sqrt :: "float64 \<Rightarrow> float64" where
  "np_sqrt (Fin a) = (if a < 0 then NaN else Fin (sqrt a))"
| "np_sqrt PInf = PInf"
| "np_sqrt NInf = NaN"
| "np_sqrt NaN = NaN"

text \<open>\<open>np.fmax\<close> and \<open>np.fmin\<close> ignore a \<open>NaN\<close> operand when the other is a number.\<close>

definition np_fmax :: "float64 \<Rightarrow> float64 \<Rightarrow> float64" where
  "np_fmax a b = (if a = NaN then b else if b = NaN then a else if a < b then b else a)"

definition np_fmin :: "float64 \<Rightarrow> float64 \<Rightarrow> float64" where
  "np_fmin a b = (if a = NaN then b else if b = NaN then a else if b < a then b else a)"

text \<open>\<open>np.round\<close> rounds halves to the even neighbour.\<close>

definition round_half_even :: "real \<Rightarrow> int" where
  "round_half_even a =
     (let f = \<lfloor>a\<rfloor>; d = a - of_int f
      in if d < 1 / 2 then f else if 1 / 2 < d then f + 1
         else if even f then f else f + 1)"

fun np_round :: "float64 \<Rightarrow> float64" where
  "np_round (Fin a) = Fin (of_int (round_half_even a))"
| "np_round x = x"

fun np_ceil :: "float64 \<Rightarrow> float64" where
  "np_ceil (Fin a) = Fin (of_int \<lceil>a\<rceil>)"
| "np_ceil x = x"

fun np_floor :: "float64 \<Rightarrow> float64" where
  "np_floor (Fin a) = Fin (of_int \<lfloor>a\<rfloor>)"
| "np_floor x = x"

text \<open>\<open>sum\<close> and \<open>prod\<close> of a one-dimensional array.\<close>

definition np_sum :: "float64 list \<Rightarrow> float64" where
  "np_sum xs = foldr (+) xs 0"

definition np_prod :: "float64 list \<Rightarrow> float64" where
  "np_prod xs = foldr (*) xs 1"

section \<open>Errors, slices and broadcasting\<close>

text \<open>
  The exceptions the modelled code can raise. A function that can raise returns
  \<open>error + 'a\<close>, with \<open>Inl\<close> for the exception; \<open>bind_err\<close> runs the rest of a body only
  when the first part returned.
\<close>

datatype error = IndexError | ValueError | TypeError | ZeroDivisionError | UnboundLocalError

definition bind_err :: "error + 'a \<Rightarrow> ('a \<Rightarrow> error + 'b) \<Rightarrow> error + 'b" where
  "bind_err m f = (case m of Inl e \<Rightarrow> Inl e | Inr x \<Rightarrow> f x)"

fun sequence_err :: "(error + 'a) list \<Rightarrow> error + 'a list" where
  "sequence_err [] = Inr []"
| "sequence_err (m # ms) =
     bind_err m (\<lambda>x. bind_err (sequence_err ms) (\<lambda>xs. Inr (x # xs)))"

text \<open>The slice \<open>xs[i:j]\<close> for non-negative bounds: it never raises, it truncates.\<close>

definition py_slice :: "'a list \<Rightarrow> nat \<Rightarrow> nat \<Rightarrow> 'a list" where
  "py_slice xs i j = take (j - i) (drop i xs)"

text \<open>
  \<open>reshape(r, c)\<close> of a one-dimensional array, in row-major order: a \<open>ValueError\<close> unless
  the array has exactly \<open>r * c\<close> elements. A two-dimensional array is the list of its rows.
\<close>

definition np_reshape :: "'a list \<Rightarrow> nat \<Rightarrow> nat \<Rightarrow> error + 'a list list" where
  "np_reshape xs r c =
     (if length xs = r * c then Inr (map (\<lambda>i. py_slice xs (i * c) (i * c + c)) [0..<r])
      else Inl ValueError)"

text \<open>
  An elementwise operation on two one-dimensional arrays, with NumPy's broadcasting: the
  lengths agree, or one of them is 1, or the operation raises. \<open>broadcast2d\<close> is the same
  for two-dimensional arrays, row by row.
\<close>

definition broadcast2 :: "('a \<Rightarrow> 'b \<Rightarrow> 'c) \<Rightarrow> 'a list \<Rightarrow> 'b list \<Rightarrow> error + 'c list" where
  "broadcast2 f xs ys =
     (if length xs = length ys then Inr (map2 f xs ys)
      else if length ys = 1 then Inr (map (\<lambda>x. f x (hd ys)) xs)
      else if length xs = 1 then Inr (map (f (hd xs)) ys)
      else Inl ValueError)"

definition broadcast2d ::
  "('a \<Rightarrow> 'b \<Rightarrow> 'c) \<Rightarrow> 'a list list \<Rightarrow> 'b list list \<Rightarrow> error + 'c list list" where
  "broadcast2d f P Q = bind_err (broadcast2 (broadcast2 f) P Q) sequence_err"

text \<open>The transpose \<open>np.asarray(rows).T\<close>; an empty list of rows is an array of shape \<open>(0,)\<close>.\<close>

definition np_transpose :: "'a list list \<Rightarrow> 'a list list" where
  "np_transpose xss =
     (case xss of [] \<Rightarrow> [] | r # _ \<Rightarrow> map (\<lambda>i. map (\<lambda>t. t ! i) xss) [0..<length r])"

text \<open>\<open>itertools.product(*v)\<close>: the last factor advances fastest.\<close>

fun itertools_product :: "'a list list \<Rightarrow> 'a list list" where
  "itertools_product [] = [[]]"
| "itertools_product (xs # xss) =
     concat (map (\<lambda>x. map (\<lambda>t. x # t) (itertools_product xss)) xs)"

fun cumsum_from :: "nat \<Rightarrow> nat list \<Rightarrow> nat list" where
  "cumsum_from acc [] = []"
| "cumsum_from acc (x # xs) = (acc + x) # cumsum_from (acc + x) xs"

definition np_cumsum :: "nat list \<Rightarrow> nat list" where
  "np_cumsum xs = cumsum_from 0 xs"

section \<open>The ANFIS class\<close>

text \<open>
  The attributes of an \<open>ANFIS\<close> instance. \<open>n_mf\<close> and \<open>n_outputs\<close> are counts, hence natural
  numbers. NumPy keeps \<open>n_pf\<close>, \<open>n_cf\<close> and \<open>n_var\<close> as 64-bit integers: the definitions below
  are their values as long as these stay below \<open>2^63\<close>, and the theorems that depend on them
  say so; \<open>problem\<close> is \<open>'C'\<close> for classification. The arrays the methods store on the
  instance carry the prefix \<open>self_\<close>: the extended input \<open>Xe\<close>, the class matrix \<open>Yout\<close> and
  class list \<open>Yu\<close>, the rule combinations \<open>combs\<close> and the parameters \<open>mu\<close>, \<open>s\<close>, \<open>c\<close>, \<open>A\<close>.
\<close>

record anfis =
  n_mf :: "nat list"
  n_outputs :: nat
  problem :: "string option"
  init_prob :: bool
  self_Xe :: "float64 list list"
  self_Yout :: "float64 list list"
  self_Yu :: "float64 list"
  self_combs :: "nat list list"
  self_mu :: "float64 list"
  self_s :: "float64 list"
  self_c :: "float64 list"
  self_A :: "float64 list list"

definition n_inputs :: "'z anfis_scheme \<Rightarrow> nat" where
  "n_inputs a = length (n_mf a)"

definition n_pf :: "'z anfis_scheme \<Rightarrow> nat" where
  "n_pf a = sum_list (n_mf a)"

definition n_cf :: "'z anfis_scheme \<Rightarrow> nat" where
  "n_cf a = prod_list (n_mf a)"

definition n_var :: "'z anfis_scheme \<Rightarrow> nat" where
  "n_var a = 3 * n_pf a + (n_inputs a + 1) * n_cf a * n_outputs a"

text \<open>\<open>ANFIS.__init__\<close>.\<close>

definition ANFIS :: "nat list \<Rightarrow> nat \<Rightarrow> string option \<Rightarrow> anfis" where
  "ANFIS nmf nout prob =
     \<lparr>n_mf = nmf, n_outputs = nout, problem = prob, init_prob = True, self_Xe = [],
      self_Yout = [], self_Yu = [], self_combs = [], self_mu = [], self_s = [],
      self_c = [], self_A = []\<rparr>"

text \<open>
  \<open>build_combs\<close>: \<open>idx[0]\<close> raises \<open>IndexError\<close> on an empty \<open>n_mf\<close>; the result is the
  value stored in \<open>self.combs\<close>.
\<close>

definition build_combs :: "nat list \<Rightarrow> error + nat list list" where
  "build_combs nmf =
     (let idx = np_cumsum nmf in
      if idx = [] then Inl IndexError
      else
        let v = [0..<idx ! 0] # map (\<lambda>i. [idx ! (i - 1)..<idx ! i]) [1..<length nmf];
            list_combs = itertools_product v
        in Inr (np_transpose list_combs))"

text \<open>
  For an empty \<open>n_mf\<close> the array \<open>np.asarray(n_mf)\<close> is an array of floats, so \<open>n_pf\<close> is
  the float \<open>0.0\<close>: using it as a shape or as a slice bound raises \<open>TypeError\<close>.

  \<open>expand_input_dataset\<close>: \<open>X[:, i]\<close> raises \<open>IndexError\<close> when \<open>X\<close> has fewer than
  \<open>n_inputs\<close> columns; column \<open>i\<close> is repeated \<open>n_mf[i]\<close> times.
\<close>

definition expand_input_dataset :: "nat list \<Rightarrow> float64 list list \<Rightarrow> error + float64 list list" where
  "expand_input_dataset nmf X =
     (if nmf = [] then Inl TypeError
      else if \<exists>row \<in> set X. length row < length nmf then Inl IndexError
      else Inr (map (\<lambda>row. concat (map2 replicate nmf row)) X))"

text \<open>
  \<open>build_param\<close>: the three premise slices are taken first, then the rest is reshaped.
  There is no test of \<open>len(theta)\<close>: the only exception is the \<open>ValueError\<close> of \<open>reshape\<close>.
\<close>

definition build_param :: "'z anfis_scheme \<Rightarrow> float64 list \<Rightarrow> error + 'z anfis_scheme" where
  "build_param a theta =
     (if n_mf a = [] then Inl TypeError
      else
        let i1 = n_pf a; i2 = 2 * i1; i3 = 3 * i1; i4 = n_var a;
            a1 = a\<lparr>self_mu := py_slice theta 0 i1, self_s := py_slice theta i1 i2,
                   self_c := py_slice theta i2 i3\<rparr>
        in bind_err (np_reshape (py_slice theta i3 i4) (n_inputs a + 1) (n_cf a * n_outputs a))
             (\<lambda>A. Inr (a1\<lparr>self_A := A\<rparr>)))"

text \<open>
  \<open>forward_steps\<close>, layer 1: the premise functions of one sample (one row of \<open>Xe\<close>).
\<close>

definition premise_row ::
  "float64 list \<Rightarrow> float64 list \<Rightarrow> float64 list \<Rightarrow> float64 list \<Rightarrow> error + float64 list" where
  "premise_row mu s c xe =
     bind_err (broadcast2 (-) xe mu) (\<lambda>t.
     bind_err (broadcast2 (/) t s) (\<lambda>d.
     bind_err (broadcast2 np_power (map (\<lambda>x. x * x) d) c) (\<lambda>p.
     Inr (map (\<lambda>y. 1 / (1 + y)) p))))"

text \<open>
  Layer 2: \<open>np.prod(pf[:, combs], axis=1)\<close> for one sample. Indexing raises \<open>IndexError\<close>
  for an index outside the row, and for the float array of shape \<open>(0,)\<close> that \<open>build_combs\<close>
  leaves when there is no combination.
\<close>

definition firing_row :: "nat list list \<Rightarrow> float64 list \<Rightarrow> error + float64 list" where
  "firing_row cbs p =
     (if cbs = [] \<or> (\<exists>r \<in> set cbs. \<exists>k \<in> set r. length p \<le> k) then Inl IndexError
      else Inr (map (\<lambda>j. np_prod (map (\<lambda>r. p ! (r ! j)) cbs)) [0..<length (hd cbs)]))"

text \<open>Layer 3: \<open>W / W.sum(axis=1, keepdims=True)\<close> for one sample; nothing guards the sum.\<close>

definition ratio_row :: "float64 list \<Rightarrow> float64 list" where
  "ratio_row w = map (\<lambda>x. x / np_sum w) w"

text \<open>The matrix product \<open>P @ Q\<close>: a \<open>ValueError\<close> unless the inner dimensions agree.\<close>

definition matmul :: "float64 list list \<Rightarrow> float64 list list \<Rightarrow> error + float64 list list" where
  "matmul P Q =
     (if \<exists>row \<in> set P. length row \<noteq> length Q then Inl ValueError
      else Inr (map (\<lambda>row. map (\<lambda>j. np_sum (map2 (*) row (map (\<lambda>q. q ! j) Q)))
                  [0..<(case Q of [] \<Rightarrow> 0 | q # _ \<Rightarrow> length q)]) P))"

text \<open>The assignment \<open>f[:, i] = v\<close> into a column of \<open>n\<close> entries.\<close>

definition assign_column :: "nat \<Rightarrow> 'a list \<Rightarrow> error + 'a list" where
  "assign_column n v =
     (if length v = n then Inr v
      else if length v = 1 then Inr (replicate n (hd v))
      else Inl ValueError)"

text \<open>Layers 4 and 5 for output \<open>i\<close>: the body of the loop over the outputs.\<close>

definition output_column ::
  "'z anfis_scheme \<Rightarrow> float64 list list \<Rightarrow> float64 list list \<Rightarrow> nat \<Rightarrow> nat \<Rightarrow>
   error + float64 list" where
  "output_column a X1 Wr n_samples i =
     (let i1 = i * n_cf a; i2 = (i + 1) * n_cf a in
      bind_err (matmul X1 (map (\<lambda>q. py_slice q i1 i2) (self_A a))) (\<lambda>XA.
      bind_err (broadcast2d (*) Wr XA) (\<lambda>cf.
      assign_column n_samples (map np_sum cf))))"

definition firing_strengths :: "'z anfis_scheme \<Rightarrow> float64 list list \<Rightarrow> error + float64 list list" where
  "firing_strengths a Xe =
     bind_err (sequence_err (map (premise_row (self_mu a) (self_s a) (self_c a)) Xe)) (\<lambda>pf.
     sequence_err (map (firing_row (self_combs a)) pf))"

definition forward_steps ::
  "'z anfis_scheme \<Rightarrow> float64 list list \<Rightarrow> float64 list list \<Rightarrow> error + float64 list list" where
  "forward_steps a X Xe =
     (let n_samples = length X in
      bind_err (firing_strengths a Xe) (\<lambda>W.
      let Wr = map ratio_row W;
          X1 = map (\<lambda>row. 1 # row) X
      in bind_err (sequence_err (map (output_column a X1 Wr n_samples) [0..<n_outputs a]))
           (\<lambda>cols. Inr (map (\<lambda>i. map (\<lambda>col. col ! i) cols) [0..<n_samples]))))"










section \<open>Particle swarm optimisation\<close>

text \<open>
  The arguments of \<open>PSO\<close>. The objective \<open>func\<close> maps the matrix of positions to the vector
  of costs (its \<open>args\<close> are part of it). \<open>LB\<close> and \<open>UB\<close> have the same length \<open>nVar\<close>, as the
  docstring gives their dimension; the theorems state it. \<open>IntVar\<close> is \<open>None\<close>, \<open>'all'\<close>
  or a list of indexes counted from 1.
\<close>

datatype int_var = IntVarNone | IntVarAll | IntVarList "int list"

record pso_args =
  func :: "float64 list list \<Rightarrow> float64 list"
  LB :: "float64 list"
  UB :: "float64 list"
  nPop :: nat
  epochs :: nat
  K :: nat
  phi :: float64
  vel_fact :: float64
  conf_type :: string
  IntVar :: int_var
  normalize :: bool
  rad :: float64

text \<open>
  One realisation of the random numbers: every call of \<open>np.random\<close> in the program takes
  its array from here. The first argument of the draws made in the main loop is the
  epoch; \<open>informants_rand\<close> takes 0 for the draw before the loop and the epoch plus 1 in it.
\<close>

record pso_random =
  init_pos_rand :: "nat \<Rightarrow> nat \<Rightarrow> float64"
  init_vel_rand :: "nat \<Rightarrow> nat \<Rightarrow> float64"
  informants_rand :: "nat \<Rightarrow> nat \<Rightarrow> nat \<Rightarrow> float64"
  sphere_normal :: "nat \<Rightarrow> nat \<Rightarrow> nat \<Rightarrow> float64"
  sphere_uniform :: "nat \<Rightarrow> nat \<Rightarrow> float64"
  back_rand :: "nat \<Rightarrow> nat \<Rightarrow> nat \<Rightarrow> float64"
  mixed_rand :: "nat \<Rightarrow> nat \<Rightarrow> nat \<Rightarrow> float64"

text \<open>An array of shape \<open>(n, m)\<close> filled from a realisation.\<close>

definition rand_matrix :: "(nat \<Rightarrow> nat \<Rightarrow> float64) \<Rightarrow> nat \<Rightarrow> nat \<Rightarrow> float64 list list" where
  "rand_matrix g n m = map (\<lambda>i. map (g i) [0..<m]) [0..<n]"

text \<open>
  Elementwise operations: a matrix with a vector along the rows, two matrices, and a matrix
  with one value per row (an array of shape \<open>(n, 1)\<close>).
\<close>

definition mat_vec :: "('a \<Rightarrow> 'b \<Rightarrow> 'c) \<Rightarrow> 'a list list \<Rightarrow> 'b list \<Rightarrow> 'c list list" where
  "mat_vec f M v = map (\<lambda>row. map2 f row v) M"

definition mat_mat :: "('a \<Rightarrow> 'b \<Rightarrow> 'c) \<Rightarrow> 'a list list \<Rightarrow> 'b list list \<Rightarrow> 'c list list" where
  "mat_mat f M N = map2 (map2 f) M N"

definition mat_col :: "('a \<Rightarrow> 'b \<Rightarrow> 'c) \<Rightarrow> 'a list list \<Rightarrow> 'b list \<Rightarrow> 'c list list" where
  "mat_col f M c = map2 (\<lambda>row x. map (\<lambda>y. f y x) row) M c"

text \<open>\<open>np.linalg.norm(M, axis=1)\<close>.\<close>

definition norm_rows :: "float64 list list \<Rightarrow> float64 list" where
  "norm_rows M = map (\<lambda>row. np_sqrt (np_sum (map (\<lambda>x. x * x) row))) M"

text \<open>
  \<open>np.argmin\<close>: the first index of the least value, a \<open>NaN\<close> counting as least; it raises
  on an empty array.
\<close>

fun argmin_from :: "nat \<Rightarrow> float64 \<Rightarrow> nat \<Rightarrow> float64 list \<Rightarrow> nat" where
  "argmin_from bi bv i [] = bi"
| "argmin_from bi bv i (x # xs) =
     (if bv = NaN then bi
      else if x = NaN \<or> x < bv then argmin_from i x (Suc i) xs
      else argmin_from bi bv (Suc i) xs)"

definition np_argmin :: "float64 list \<Rightarrow> error + nat" where
  "np_argmin xs = (case xs of [] \<Rightarrow> Inl ValueError | x # r \<Rightarrow> Inr (argmin_from 0 x 1 r))"

text \<open>
  The columns treated as integers. The indexes of a list are lowered by 1; NumPy counts a
  negative index from the end and raises \<open>IndexError\<close> outside \<open>-nVar .. nVar - 1\<close>.
\<close>

definition int_columns :: "nat \<Rightarrow> int_var \<Rightarrow> error + nat list" where
  "int_columns n iv =
     (case iv of
        IntVarNone \<Rightarrow> Inr []
      | IntVarAll \<Rightarrow> Inr [0..<n]
      | IntVarList is \<Rightarrow>
          if \<exists>i \<in> set is. i - 1 < - int n \<or> int n \<le> i - 1 then Inl IndexError
          else Inr (map (\<lambda>i. if i - 1 < 0 then nat (i - 1 + int n) else nat (i - 1)) is))"

text \<open>\<open>M[:, cols] = g(M[:, cols])\<close> where \<open>g\<close> may depend on the column.\<close>

definition on_columns :: "nat list \<Rightarrow> (nat \<Rightarrow> float64 \<Rightarrow> float64) \<Rightarrow> float64 list list \<Rightarrow> float64 list list" where
  "on_columns cols g M =
     map (\<lambda>row. map (\<lambda>k. if k \<in> set cols then g k (row ! k) else row ! k) [0..<length row]) M"

text \<open>The values \<open>PSO\<close> computes before the first random draw.\<close>

definition nVar :: "'z pso_args_scheme \<Rightarrow> nat" where
  "nVar c = length (LB c)"

definition vel_max :: "'z pso_args_scheme \<Rightarrow> float64 list" where
  "vel_max c = map (\<lambda>d. vel_fact c * d) (map2 (-) (UB c) (LB c))"

definition vel_min :: "'z pso_args_scheme \<Rightarrow> float64 list" where
  "vel_min c = map uminus (vel_max c)"

definition w_coef :: "'z pso_args_scheme \<Rightarrow> float64" where
  "w_coef c = 1 / (phi c - 1 + np_sqrt (np_power (phi c) (Fin 2) - Fin 2 * phi c))"

definition cmax :: "'z pso_args_scheme \<Rightarrow> float64" where
  "cmax c = w_coef c * phi c"

text \<open>
  \<open>p_informant\<close> is computed on Python floats: \<open>1.0 / float(nPop)\<close> raises
  \<open>ZeroDivisionError\<close> for an empty population, whatever \<open>K\<close> is.
\<close>

definition p_informant :: "'z pso_args_scheme \<Rightarrow> error + float64" where
  "p_informant c =
     (if nPop c = 0 then Inl ZeroDivisionError
      else Inr (Fin (1 - (1 - 1 / real (nPop c)) ^ K c)))"

text \<open>The bounds the loop works with, and the positions handed to \<open>func\<close>.\<close>

definition work_LB :: "'z pso_args_scheme \<Rightarrow> float64 list" where
  "work_LB c = (if normalize c then replicate (nVar c) 0 else LB c)"

definition work_UB :: "'z pso_args_scheme \<Rightarrow> float64 list" where
  "work_UB c = (if normalize c then replicate (nVar c) 1 else UB c)"

definition cost_of :: "'z pso_args_scheme \<Rightarrow> float64 list list \<Rightarrow> float64 list" where
  "cost_of c pos =
     (if normalize c
      then func c (mat_vec (\<lambda>x l. l + x) (mat_vec (*) pos (map2 (-) (UB c) (LB c))) (LB c))
      else func c pos)"

text \<open>
  The variables of the main loop. \<open>swarm_best_pos\<close> is not among them: the program binds
  it to \<open>agent_best_pos[idx, :]\<close>, a view of that row, so it is the row of \<open>agent_best_pos\<close>
  with the number \<open>swarm_best_idx\<close> also after \<open>agent_best_pos\<close> was updated in place.
\<close>

record pso_state =
  agent_pos :: "float64 list list"
  agent_vel :: "float64 list list"
  agent_best_pos :: "float64 list list"
  agent_best_cost :: "float64 list"
  swarm_best_cost :: float64
  swarm_best_idx :: nat
  group_best_pos :: "float64 list list"
  p_equal_g :: "float64 list"
  informants :: "nat list list"

definition swarm_best_pos :: "'z pso_state_scheme \<Rightarrow> float64 list" where
  "swarm_best_pos st = agent_best_pos st ! swarm_best_idx st"

text \<open>The informant matrix: \<open>np.where(rand < p_informant, 1, 0)\<close> with the diagonal set to 1.\<close>

definition make_informants :: "(nat \<Rightarrow> nat \<Rightarrow> float64) \<Rightarrow> nat \<Rightarrow> float64 \<Rightarrow> nat list list" where
  "make_informants g n p =
     map (\<lambda>i. map (\<lambda>j. if i = j then 1 else if g i j < p then 1 else 0) [0..<n]) [0..<n]"

definition group_best ::
  "nat list list \<Rightarrow> float64 list list \<Rightarrow> float64 list \<Rightarrow>
   error + (float64 list list \<times> float64 list)" where
  "group_best infs abp abc =
     (let n = length abp;
          informants_cost = map (\<lambda>row. map2 (\<lambda>i c. if i = 1 then c else PInf) row abc) infs
      in bind_err (sequence_err (map np_argmin informants_cost)) (\<lambda>idx.
         if \<exists>j \<in> set idx. n \<le> j then Inl IndexError
         else Inr (map (\<lambda>j. abp ! j) idx,
                   map (\<lambda>i. if i = idx ! i then Fin (3 / 4) else 1) [0..<n])))"

definition hypersphere_point ::
  "(nat \<Rightarrow> nat \<Rightarrow> float64) \<Rightarrow> (nat \<Rightarrow> float64) \<Rightarrow> float64 list list \<Rightarrow> float64 list list \<Rightarrow>
   float64 list list" where
  "hypersphere_point normal uniform Gr pos =
     (let n = length pos;
          m = (case pos of [] \<Rightarrow> 0 | r # _ \<Rightarrow> length r);
          r_max = norm_rows (mat_mat (-) Gr pos);
          u = rand_matrix normal n m;
          norm = norm_rows u;
          r = map2 (\<lambda>rm x. Fin 0 + (rm - Fin 0) * x) r_max (map uniform [0..<n])
      in mat_col (*) u (map2 (/) r norm))"

definition hyperbolic_conf ::
  "float64 list list \<Rightarrow> float64 list list \<Rightarrow> float64 list \<Rightarrow> float64 list \<Rightarrow> float64 list list" where
  "hyperbolic_conf pos vel ub lb =
     map2 (\<lambda>prow vrow.
        map2 (\<lambda>(p, v) (u, l).
           let if_pos_vel = v / (1 + \<bar>v / (u - p)\<bar>);
               if_neg_vel = v / (1 + \<bar>v / (p - l)\<bar>)
           in if 0 < v then if_pos_vel else if_neg_vel)
          (zip prow vrow) (zip ub lb))
       pos vel"

definition random_back_conf :: "(nat \<Rightarrow> nat \<Rightarrow> float64) \<Rightarrow> float64 list list \<Rightarrow> float64 list list" where
  "random_back_conf g vel =
     (let n = length vel; m = (case vel of [] \<Rightarrow> 0 | r # _ \<Rightarrow> length r)
      in mat_mat (\<lambda>x v. (- x) * v) (rand_matrix g n m) vel)"

definition mixed_conf ::
  "(nat \<Rightarrow> nat \<Rightarrow> float64) \<Rightarrow> (nat \<Rightarrow> nat \<Rightarrow> float64) \<Rightarrow> float64 list list \<Rightarrow>
   float64 list list \<Rightarrow> float64 list \<Rightarrow> float64 list \<Rightarrow> float64 list list" where
  "mixed_conf gb gm pos vel ub lb =
     (let n = length pos; m = (case pos of [] \<Rightarrow> 0 | r # _ \<Rightarrow> length r);
          vel_conf_HY = hyperbolic_conf pos vel ub lb;
          vel_conf_RB = random_back_conf gb vel;
          gamma = rand_matrix gm n m
      in mat_mat (\<lambda>g (h, b). if Fin (1 / 2) \<le> g then h else b) gamma
           (map2 zip vel_conf_HY vel_conf_RB))"

text \<open>The velocity limits and the two clips of the positions.\<close>

definition clamp_velocity :: "'z pso_args_scheme \<Rightarrow> float64 list list \<Rightarrow> float64 list list" where
  "clamp_velocity c vel = mat_vec np_fmin (mat_vec np_fmax vel (vel_min c)) (vel_max c)"

definition clip_position ::
  "'z pso_args_scheme \<Rightarrow> nat list \<Rightarrow> float64 list list \<Rightarrow> float64 list list" where
  "clip_position c cols pos =
     (let pos1 = mat_vec np_fmin (mat_vec np_fmax pos (work_LB c)) (work_UB c);
          pos2 = on_columns cols (\<lambda>k x. np_fmax x (np_ceil (work_LB c ! k))) pos1
      in on_columns cols (\<lambda>k x. np_fmin x (np_floor (work_UB c ! k))) pos2)"

text \<open>The initial positions and velocities of the agents.\<close>

definition initial_pos :: "pso_args \<Rightarrow> pso_random \<Rightarrow> nat list \<Rightarrow> float64 list list" where
  "initial_pos c rnd cols =
     on_columns cols (\<lambda>k. np_round)
       (mat_vec (\<lambda>x l. l + x)
          (mat_vec (*) (rand_matrix (init_pos_rand rnd) (nPop c) (nVar c))
             (map2 (-) (work_UB c) (work_LB c)))
          (work_LB c))"

definition initial_vel :: "pso_args \<Rightarrow> pso_random \<Rightarrow> float64 list list \<Rightarrow> float64 list list" where
  "initial_vel c rnd pos =
     clamp_velocity c
       (mat_mat (+) (mat_vec (\<lambda>x l. l - x) pos (work_LB c))
          (mat_vec (*) (rand_matrix (init_vel_rand rnd) (nPop c) (nVar c))
             (map2 (-) (work_UB c) (work_LB c))))"

text \<open>
  \<open>PSO\<close> up to the main loop. The result carries \<open>p_informant\<close> and the integer columns,
  which the loop uses unchanged.
\<close>

definition PSO_init ::
  "pso_args \<Rightarrow> pso_random \<Rightarrow> error + (float64 \<times> nat list \<times> pso_state)" where
  "PSO_init c rnd =
     bind_err (p_informant c) (\<lambda>p.
     bind_err (int_columns (nVar c) (IntVar c)) (\<lambda>cols.
     let pos = initial_pos c rnd cols;
         vel = initial_vel c rnd pos;
         cost = cost_of c pos
     in bind_err (np_argmin cost) (\<lambda>idx.
        if length pos \<le> idx then Inl IndexError
        else
          let st = \<lparr>agent_pos = pos, agent_vel = vel, agent_best_pos = pos,
                    agent_best_cost = cost, swarm_best_cost = cost ! idx,
                    swarm_best_idx = idx,
                    group_best_pos = replicate (nPop c) (pos ! idx),
                    p_equal_g = map (\<lambda>i. if i = idx then Fin (3 / 4) else 1) [0..<nPop c],
                    informants = []\<rparr>
          in if K c = 0 then Inr (p, cols, st)
             else
               let infs = make_informants (informants_rand rnd 0) (nPop c) p
               in bind_err (group_best infs pos cost) (\<lambda>(g, pe).
                    Inr (p, cols, st\<lparr>group_best_pos := g, p_equal_g := pe,
                                      informants := infs\<rparr>)))))"

text \<open>
  One pass of the main loop, for epoch \<open>e\<close>, in its two parts. \<open>epoch_move\<close> is the part up
  to the confinement of the positions and returns the new positions and velocities. A
  \<open>conf_type\<close> other than \<open>'RB'\<close>, \<open>'HY'\<close> and \<open>'MX'\<close> leaves \<open>vel_conf\<close> unassigned, and
  reading it raises \<open>UnboundLocalError\<close>.
\<close>

definition epoch_move ::
  "pso_args \<Rightarrow> pso_random \<Rightarrow> nat list \<Rightarrow> nat \<Rightarrow> pso_state \<Rightarrow>
   error + (float64 list list \<times> float64 list list)" where
  "epoch_move c rnd cols e st =
     (let pos = agent_pos st;
          c3 = Fin (1 / 3) * cmax c;
          Gr = mat_mat (+) pos
                 (mat_col (*)
                    (map (map (\<lambda>x. c3 * x))
                       (mat_mat (-) (mat_mat (+) (agent_best_pos st) (group_best_pos st))
                          (map (map (\<lambda>x. Fin 2 * x)) pos)))
                    (p_equal_g st));
          x_sphere = hypersphere_point (sphere_normal rnd e) (sphere_uniform rnd e) Gr pos;
          vel1 = mat_mat (-)
                   (mat_mat (+) (mat_mat (+) (map (map (\<lambda>v. w_coef c * v)) (agent_vel st)) Gr)
                      x_sphere)
                   pos;
          vel2 = clamp_velocity c vel1;
          agent_pos_tmp = on_columns cols (\<lambda>k. np_round) (mat_mat (+) pos vel2);
          out = map (\<lambda>row. map (\<lambda>k. \<not> (work_LB c ! k < row ! k \<and> row ! k < work_UB c ! k))
                      [0..<length row]) agent_pos_tmp
      in bind_err
           (if conf_type c = ''RB'' then Inr (random_back_conf (back_rand rnd e) vel2)
            else if conf_type c = ''HY''
            then Inr (hyperbolic_conf pos vel2 (work_UB c) (work_LB c))
            else if conf_type c = ''MX''
            then Inr (mixed_conf (back_rand rnd e) (mixed_rand rnd e) pos vel2
                        (work_UB c) (work_LB c))
            else Inl UnboundLocalError) (\<lambda>vel_conf.
         let vel3 = mat_mat (\<lambda>b (vc, v). if b then vc else v) out (map2 zip vel_conf vel2);
             pos1 = on_columns cols (\<lambda>k. np_round) (mat_mat (+) pos vel3)
         in Inr (clip_position c cols pos1, vel3)))"

text \<open>
  \<open>epoch_update\<close> is the rest of the pass: the new costs, the best positions of the agents
  and of the swarm, and the groups of informants.
\<close>

definition epoch_update ::
  "pso_args \<Rightarrow> pso_random \<Rightarrow> float64 \<Rightarrow> nat \<Rightarrow> pso_state \<Rightarrow> float64 list list \<Rightarrow>
   float64 list list \<Rightarrow> error + pso_state" where
  "epoch_update c rnd p e st pos vel =
     (let agent_cost = cost_of c pos;
          better = map2 (<) agent_cost (agent_best_cost st);
          abp = map2 (\<lambda>b (new, old). if b then new else old) better
                  (zip pos (agent_best_pos st));
          abc = map2 (\<lambda>b (new, old). if b then new else old) better
                  (zip agent_cost (agent_best_cost st))
      in bind_err (np_argmin abc) (\<lambda>idx.
         if length abp \<le> idx then Inl IndexError
         else
           let improved = abc ! idx < swarm_best_cost st;
               infs = (if improved \<or> K c = 0 then informants st
                       else make_informants (informants_rand rnd (Suc e)) (nPop c) p);
               st1 = st\<lparr>agent_pos := pos, agent_vel := vel, agent_best_pos := abp,
                         agent_best_cost := abc,
                         swarm_best_cost :=
                           (if improved then abc ! idx else swarm_best_cost st),
                         swarm_best_idx := (if improved then idx else swarm_best_idx st),
                         informants := infs\<rparr>
           in if K c = 0
              then Inr (st1\<lparr>group_best_pos := replicate (nPop c) (swarm_best_pos st1)\<rparr>)
              else bind_err (group_best infs abp abc) (\<lambda>(g, pe).
                     Inr (st1\<lparr>group_best_pos := g, p_equal_g := pe\<rparr>))))"

definition PSO_epoch ::
  "pso_args \<Rightarrow> pso_random \<Rightarrow> float64 \<Rightarrow> nat list \<Rightarrow> nat \<Rightarrow> pso_state \<Rightarrow> error + pso_state" where
  "PSO_epoch c rnd p cols e st =
     bind_err (epoch_move c rnd cols e st) (\<lambda>(pos, vel). epoch_update c rnd p e st pos vel)"

text \<open>The loop \<open>for epoch in range(epochs)\<close>: \<open>n\<close> passes starting with epoch \<open>e\<close>.\<close>

fun PSO_loop ::
  "pso_args \<Rightarrow> pso_random \<Rightarrow> float64 \<Rightarrow> nat list \<Rightarrow> nat \<Rightarrow> nat \<Rightarrow> pso_state \<Rightarrow> error + pso_state" where
  "PSO_loop c rnd p cols e 0 st = Inr st"
| "PSO_loop c rnd p cols e (Suc n) st =
     bind_err (PSO_epoch c rnd p cols e st) (PSO_loop c rnd p cols (Suc e) n)"


text \<open>The state of the variables when the loop has ended.\<close>

definition PSO_run :: "pso_args \<Rightarrow> pso_random \<Rightarrow> error + pso_state" where
  "PSO_run c rnd =
     bind_err (PSO_init c rnd) (\<lambda>(p, cols, st). PSO_loop c rnd p cols 0 (epochs c) st)"


section \<open>Notions used to state the properties\<close>

text \<open>Column \<open>j\<close> of a two-dimensional array, \<open>M[:, j]\<close>.\<close>

definition column :: "'a list list \<Rightarrow> nat \<Rightarrow> 'a list" where
  "column M j = map (\<lambda>r. r ! j) M"

text \<open>
  The premise functions of input \<open>i\<close>: they are numbered after those of the inputs
  before it, so input \<open>i\<close> owns the indexes from the number of functions of the earlier
  inputs up to, and without, that number plus \<open>n_mf[i]\<close>.
\<close>

definition mf_indexes :: "nat list \<Rightarrow> nat \<Rightarrow> nat list" where
  "mf_indexes nmf i = [sum_list (take i nmf)..<sum_list (take (Suc i) nmf)]"



text \<open>
  Every component of every position lies between the bounds the loop works with, ends
  included.
\<close>

definition within_bounds :: "'z pso_args_scheme \<Rightarrow> float64 list list \<Rightarrow> bool" where
  "within_bounds c pos =
     (\<forall>row \<in> set pos. \<forall>k < length row.
        work_LB c ! k \<le> row ! k \<and> row ! k \<le> work_UB c ! k)"

text \<open>
  A run of \<open>PSO\<close> with one agent and one variable on \<open>[0, 1]\<close>: the objective is the sum of
  the squares of the coordinates, and the random numbers are the same at every draw.
  The other runs differ from it in the bounds, the confinement and \<open>IntVar\<close>.
\<close>

definition sum_of_squares :: "float64 list list \<Rightarrow> float64 list" where
  "sum_of_squares P = map (\<lambda>row. np_sum (map (\<lambda>x. x * x) row)) P"

definition example_random :: pso_random where
  "example_random =
     \<lparr>init_pos_rand = (\<lambda>i j. Fin (1 / 2)), init_vel_rand = (\<lambda>i j. Fin (1 / 4)),
      informants_rand = (\<lambda>e i j. Fin (1 / 2)), sphere_normal = (\<lambda>e i j. Fin 1),
      sphere_uniform = (\<lambda>e i. Fin (1 / 2)), back_rand = (\<lambda>e i j. Fin (1 / 2)),
      mixed_rand = (\<lambda>e i j. Fin (1 / 2))\<rparr>"

definition example_args :: pso_args where
  "example_args =
     \<lparr>func = sum_of_squares, LB = [Fin 0], UB = [Fin 1], nPop = 1, epochs = 1, K = 0,
      phi = Fin 2, vel_fact = Fin (1 / 2), conf_type = ''RB'', IntVar = IntVarNone,
      normalize = False, rad = Fin (1 / 10)\<rparr>"


definition fractional_bounds_args :: pso_args where
  "fractional_bounds_args =
     example_args\<lparr>LB := [Fin (1 / 4)], UB := [Fin (3 / 4)], IntVar := IntVarAll\<rparr>"

definition pinned_variable_args :: pso_args where
  "pinned_variable_args = example_args\<lparr>LB := [Fin 1], UB := [Fin 1], conf_type := ''HY''\<rparr>"

text \<open>The variables of that run before the loop, and after its one pass.\<close>

definition example_state :: pso_state where
  "example_state =
     \<lparr>agent_pos = [[Fin (1 / 2)]], agent_vel = [[Fin (- 1 / 4)]],
      agent_best_pos = [[Fin (1 / 2)]], agent_best_cost = [Fin (1 / 4)],
      swarm_best_cost = Fin (1 / 4), swarm_best_idx = 0,
      group_best_pos = [[Fin (1 / 2)]], p_equal_g = [Fin (3 / 4)], informants = []\<rparr>"

definition example_state_next :: pso_state where
  "example_state_next =
     \<lparr>agent_pos = [[Fin (1 / 4)]], agent_vel = [[Fin (- 1 / 4)]],
      agent_best_pos = [[Fin (1 / 4)]], agent_best_cost = [Fin (1 / 16)],
      swarm_best_cost = Fin (1 / 16), swarm_best_idx = 0,
      group_best_pos = [[Fin (1 / 4)]], p_equal_g = [Fin (3 / 4)], informants = []\<rparr>"

definition integer_bounds_args :: pso_args where
  "integer_bounds_args = example_args\<lparr>UB := [Fin (5 / 2)], IntVar := IntVarAll\<rparr>"

section \<open>Basic facts\<close>

lemma bind_err_simps [simp]:
  "bind_err (Inl e) f = Inl e" "bind_err (Inr x) f = f x"
  by (simp_all add: bind_err_def)

lemma py_slice_0: "py_slice xs 0 j = take j xs"
  by (simp add: py_slice_def)

lemmas float64_defs = zero_float64_def one_float64_def plus_float64_def uminus_float64_def
  minus_float64_def times_float64_def divide_float64_def less_float64_def less_eq_float64_def
  abs_float64_def

lemma bind_err_Inr:
  "bind_err m f = Inr y \<longleftrightarrow> (\<exists>x. m = Inr x \<and> f x = Inr y)"
  by (cases m) simp_all

lemma broadcast2_same:
  "length xs = length ys \<Longrightarrow> broadcast2 f xs ys = Inr (map2 f xs ys)"
  by (simp add: broadcast2_def)

section \<open>Parameter binding\<close>

lemma build_param_long:
  assumes "n_mf a \<noteq> []" and len: "n_var a \<le> length theta"
  shows "build_param a theta =
             Inr (a\<lparr>self_mu := take (n_pf a) theta,
                    self_s := take (n_pf a) (drop (n_pf a) theta),
                    self_c := take (n_pf a) (drop (2 * n_pf a) theta),
                    self_A := map (\<lambda>i. take (n_cf a * n_outputs a)
                                        (drop (3 * n_pf a + i * (n_cf a * n_outputs a)) theta))
                                [0..<n_inputs a + 1]\<rparr>)"
proof -
  define k where "k = n_cf a * n_outputs a"
  have nv: "n_var a = 3 * n_pf a + (n_inputs a + 1) * k"
    by (simp add: n_var_def k_def algebra_simps)
  have l: "length (py_slice theta (3 * n_pf a) (n_var a)) = (n_inputs a + 1) * k"
    using len nv by (simp add: py_slice_def)
  have rows: "map (\<lambda>i. py_slice (py_slice theta (3 * n_pf a) (n_var a)) (i * k) (i * k + k))
                [0..<n_inputs a + 1]
      = map (\<lambda>i. take k (drop (3 * n_pf a + i * k) theta)) [0..<n_inputs a + 1]"
  proof (rule map_cong[OF refl])
    fix i assume "i \<in> set [0..<n_inputs a + 1]"
    then have i: "i < n_inputs a + 1" by auto
    then have "i \<le> n_inputs a" by simp
    then have "i * k \<le> n_inputs a * k" by (rule mult_le_mono1)
    moreover have "(n_inputs a + 1) * k = n_inputs a * k + k" by simp
    ultimately have "k \<le> (n_inputs a + 1) * k - i * k" by linarith
    then have "min k ((n_inputs a + 1) * k - i * k) = k" by (rule min_absorb1)
    then show "py_slice (py_slice theta (3 * n_pf a) (n_var a)) (i * k) (i * k + k)
               = take k (drop (3 * n_pf a + i * k) theta)"
      by (simp add: nv py_slice_def drop_take add.commute)
  qed
  show ?thesis
    using assms(1) l rows
    by (simp add: build_param_def Let_def np_reshape_def k_def[symmetric] py_slice_0)
       (simp add: py_slice_def)
qed

lemma build_param_short:
  assumes "n_mf a \<noteq> []" and h: "length theta < n_var a" "3 * n_pf a < n_var a"
  shows "build_param a theta = Inl ValueError"
proof -
  define k where "k = n_cf a * n_outputs a"
  have nv: "n_var a = 3 * n_pf a + (n_inputs a + 1) * k"
    by (simp add: n_var_def k_def algebra_simps)
  have "length (py_slice theta (3 * n_pf a) (n_var a))
        = min (length theta - 3 * n_pf a) (n_var a - 3 * n_pf a)"
    by (simp add: py_slice_def)
  then have l: "length (py_slice theta (3 * n_pf a) (n_var a)) \<noteq> (n_inputs a + 1) * k"
    using h unfolding nv by linarith
  show ?thesis
    using assms(1) l by (simp add: build_param_def Let_def np_reshape_def k_def[symmetric])
qed

text \<open>
  Claim C5, as the code has it. \<open>build_param\<close> does not test the length of \<open>theta\<close>. For a
  non-empty \<open>n_mf\<close> whose \<open>n_var\<close> is below \<open>2^63\<close> (so that the 64-bit counts of the
  instance did not wrap): when \<open>theta\<close> has at least \<open>n_var\<close> elements, \<open>build_param\<close> returns
  with \<open>mu\<close>, \<open>s\<close> and \<open>c\<close> the slices of length \<open>n_pf\<close> at the offsets 0, \<open>n_pf\<close> and
  \<open>2 * n_pf\<close>, and \<open>A\<close> the \<open>n_inputs + 1\<close> rows of \<open>n_cf * n_outputs\<close> elements read from
  offset \<open>3 * n_pf\<close> on; the elements after the first \<open>n_var\<close> are ignored. When \<open>theta\<close> is
  shorter than \<open>n_var\<close> and there is at least one consequent coefficient, the \<open>reshape\<close>
  raises \<open>ValueError\<close>.
\<close>

theorem build_param_slices:
  assumes "n_mf a \<noteq> []" and "n_var a < 2 ^ 63"
  shows "(n_var a \<le> length theta \<longrightarrow>
           build_param a theta =
             Inr (a\<lparr>self_mu := take (n_pf a) theta,
                    self_s := take (n_pf a) (drop (n_pf a) theta),
                    self_c := take (n_pf a) (drop (2 * n_pf a) theta),
                    self_A := map (\<lambda>i. take (n_cf a * n_outputs a)
                                        (drop (3 * n_pf a + i * (n_cf a * n_outputs a)) theta))
                                [0..<n_inputs a + 1]\<rparr>))
       \<and> (length theta < n_var a \<and> 3 * n_pf a < n_var a \<longrightarrow>
            build_param a theta = Inl ValueError)"
  using build_param_long[OF assms(1)] build_param_short[OF assms(1)] by blast

theorem build_param_slices_witness:
  "build_param (ANFIS [1] 1 None) [Fin 0, Fin 1, Fin 2, Fin 3, Fin 4]
     = Inr ((ANFIS [1] 1 None)\<lparr>self_mu := [Fin 0], self_s := [Fin 1], self_c := [Fin 2],
                               self_A := [[Fin 3], [Fin 4]]\<rparr>)
   \<and> build_param (ANFIS [1] 1 None) [Fin 0, Fin 1, Fin 2, Fin 3] = Inl ValueError"
proof -
  define a0 where "a0 = ANFIS [1] 1 None"
  have ne: "n_mf a0 \<noteq> []" by (simp add: a0_def ANFIS_def)
  have v: "n_var a0 = 5" "n_pf a0 = 1" "n_cf a0 = 1" "n_inputs a0 = 1" "n_outputs a0 = 1"
    by (simp_all add: a0_def ANFIS_def n_var_def n_pf_def n_cf_def n_inputs_def)
  have small: "n_var a0 < 2 ^ 63" by (simp add: v)
  have "build_param a0 [Fin 0, Fin 1, Fin 2, Fin 3, Fin 4]
          = Inr (a0\<lparr>self_mu := [Fin 0], self_s := [Fin 1], self_c := [Fin 2],
                      self_A := [[Fin 3], [Fin 4]]\<rparr>)
        \<and> build_param a0 [Fin 0, Fin 1, Fin 2, Fin 3] = Inl ValueError"
    using build_param_slices[OF ne small, of "[Fin 0, Fin 1, Fin 2, Fin 3, Fin 4]"]
          build_param_slices[OF ne small, of "[Fin 0, Fin 1, Fin 2, Fin 3]"]
    by (simp add: v upt_rec)
  then show ?thesis by (simp add: a0_def)
qed

text \<open>
  A vector one element longer than \<open>n_var\<close> is accepted: no error, the sixth element is
  ignored.
\<close>

theorem build_param_long_theta_accepted:
  "length [Fin 0, Fin 1, Fin 2, Fin 3, Fin 4, Fin 5] \<noteq> n_var (ANFIS [1] 1 None) \<and>
   build_param (ANFIS [1] 1 None) [Fin 0, Fin 1, Fin 2, Fin 3, Fin 4, Fin 5]
     = Inr ((ANFIS [1] 1 None)\<lparr>self_mu := [Fin 0], self_s := [Fin 1], self_c := [Fin 2],
                               self_A := [[Fin 3], [Fin 4]]\<rparr>)"
  by (simp add: build_param_def ANFIS_def n_var_def n_pf_def n_cf_def n_inputs_def
      np_reshape_def py_slice_def upt_rec)

section \<open>Rule combinations\<close>

lemma itertools_product_eq: "itertools_product v = product_lists v"
  by (induction v) simp_all

lemma length_cumsum_from [simp]: "length (cumsum_from acc xs) = length xs"
  by (induction xs arbitrary: acc) simp_all

lemma nth_cumsum_from:
  "i < length xs \<Longrightarrow> cumsum_from acc xs ! i = acc + sum_list (take (Suc i) xs)"
proof (induction xs arbitrary: acc i)
  case Nil
  then show ?case by simp
next
  case (Cons x xs)
  then show ?case by (cases i) simp_all
qed

lemma nth_np_cumsum: "i < length xs \<Longrightarrow> np_cumsum xs ! i = sum_list (take (Suc i) xs)"
  by (simp add: np_cumsum_def nth_cumsum_from)

lemma length_mf_indexes: "i < length nmf \<Longrightarrow> length (mf_indexes nmf i) = nmf ! i"
  by (simp add: mf_indexes_def take_Suc_conv_app_nth)

text \<open>The ranges the loop of \<open>build_combs\<close> collects are the index sets of the inputs.\<close>

lemma factors_eq:
  assumes "nmf \<noteq> []"
  shows "[0..<np_cumsum nmf ! 0] #
           map (\<lambda>i. [np_cumsum nmf ! (i - 1)..<np_cumsum nmf ! i]) [1..<length nmf]
         = map (mf_indexes nmf) [0..<length nmf]"
proof -
  have n: "0 < length nmf" using assms by simp
  have split: "[0..<length nmf] = 0 # [1..<length nmf]"
    using n by (simp add: upt_conv_Cons)
  have first: "[0..<np_cumsum nmf ! 0] = mf_indexes nmf 0"
    using n by (simp add: nth_np_cumsum mf_indexes_def)
  have rest: "map (\<lambda>i. [np_cumsum nmf ! (i - 1)..<np_cumsum nmf ! i]) [1..<length nmf]
              = map (mf_indexes nmf) [1..<length nmf]"
  proof (rule map_cong[OF refl])
    fix i assume "i \<in> set [1..<length nmf]"
    then have i: "1 \<le> i" "i < length nmf" by simp_all
    then have "np_cumsum nmf ! (i - 1) = sum_list (take i nmf)"
      using nth_np_cumsum[of "i - 1" nmf] by simp
    then show "[np_cumsum nmf ! (i - 1)..<np_cumsum nmf ! i] = mf_indexes nmf i"
      using i by (simp add: nth_np_cumsum mf_indexes_def)
  qed
  show ?thesis unfolding split using first rest by simp
qed

lemma list_combs_length:
  "length (itertools_product (map (mf_indexes nmf) [0..<length nmf])) = prod_list nmf"
proof -
  have "map length (map (mf_indexes nmf) [0..<length nmf])
        = map (\<lambda>i. nmf ! i) [0..<length nmf]"
    by (simp add: length_mf_indexes)
  also have "\<dots> = nmf" by (rule map_nth)
  finally show ?thesis
    by (simp add: itertools_product_eq length_product_lists prod_list.eq_foldr)
qed

lemma list_combs_set:
  "t \<in> set (itertools_product (map (mf_indexes nmf) [0..<length nmf])) \<longleftrightarrow>
     length t = length nmf \<and> (\<forall>i<length nmf. t ! i \<in> set (mf_indexes nmf i))"
  by (auto simp add: itertools_product_eq product_lists_set list_all2_conv_all_nth)

lemma list_combs_distinct:
  "distinct (itertools_product (map (mf_indexes nmf) [0..<length nmf]))"
  by (simp add: itertools_product_eq distinct_product_lists mf_indexes_def)

lemma np_transpose_rect:
  assumes "L \<noteq> []" and "\<forall>t \<in> set L. length t = n"
  shows "np_transpose L = map (\<lambda>i. map (\<lambda>t. t ! i) L) [0..<n]"
  using assms by (cases L) (simp_all add: np_transpose_def)

lemma column_transpose:
  assumes "L \<noteq> []" and "\<forall>t \<in> set L. length t = n" and "j < length L"
  shows "column (np_transpose L) j = L ! j"
proof -
  have "column (np_transpose L) j = map (\<lambda>i. L ! j ! i) [0..<n]"
    using assms by (simp add: np_transpose_rect[OF assms(1,2)] column_def)
  also have "\<dots> = L ! j"
    using assms map_nth[of "L ! j"] by simp
  finally show ?thesis .
qed

lemma prod_list_pos: "0 \<notin> set nmf \<Longrightarrow> 0 < prod_list (nmf :: nat list)"
  by (induction nmf) auto

text \<open>
  Claim C2, as the code has it. For a non-empty \<open>n_mf\<close> in which every input has at least
  one membership function, \<open>build_combs\<close> returns a matrix of \<open>n_inputs\<close> rows and
  \<open>prod(n_mf)\<close> columns; every entry of row \<open>i\<close> is an index of input \<open>i\<close> (the indexes being
  offset by the counts of the earlier inputs); every choice of one index per input is a
  column; and no two columns are equal.
\<close>

theorem build_combs_cartesian:
  assumes ne: "nmf \<noteq> []" and pos: "0 \<notin> set nmf"
  shows "\<exists>cbs. build_combs nmf = Inr cbs
     \<and> length cbs = length nmf
     \<and> (\<forall>r \<in> set cbs. length r = prod_list nmf)
     \<and> (\<forall>j<prod_list nmf. \<forall>i<length nmf. cbs ! i ! j \<in> set (mf_indexes nmf i))
     \<and> (\<forall>t. length t = length nmf \<and> (\<forall>i<length nmf. t ! i \<in> set (mf_indexes nmf i))
            \<longrightarrow> (\<exists>j<prod_list nmf. column cbs j = t))
     \<and> (\<forall>j<prod_list nmf. \<forall>k<prod_list nmf. column cbs j = column cbs k \<longrightarrow> j = k)"
proof -
  define L where "L = itertools_product (map (mf_indexes nmf) [0..<length nmf])"
  have len: "length L = prod_list nmf" by (simp add: L_def list_combs_length)
  have "0 < prod_list nmf" using pos by (rule prod_list_pos)
  then have Lne: "L \<noteq> []" using len by auto
  have rect: "\<forall>t \<in> set L. length t = length nmf"
    by (simp add: L_def list_combs_set)
  have cne: "np_cumsum nmf \<noteq> []"
    using ne by (cases nmf) (simp_all add: np_cumsum_def)
  have bc: "build_combs nmf = Inr (np_transpose L)"
    unfolding build_combs_def Let_def factors_eq[OF ne] L_def using cne by simp
  have tr: "np_transpose L = map (\<lambda>i. map (\<lambda>t. t ! i) L) [0..<length nmf]"
    by (rule np_transpose_rect[OF Lne rect])
  have col: "\<And>j. j < prod_list nmf \<Longrightarrow> column (np_transpose L) j = L ! j"
    using column_transpose[OF Lne rect] len by simp
  have 1: "length (np_transpose L) = length nmf" by (simp add: tr)
  have 2: "\<forall>r \<in> set (np_transpose L). length r = prod_list nmf"
    by (auto simp add: tr len)
  have 3: "\<forall>j<prod_list nmf. \<forall>i<length nmf.
             np_transpose L ! i ! j \<in> set (mf_indexes nmf i)"
  proof (intro allI impI)
    fix j i assume j: "j < prod_list nmf" and i: "i < length nmf"
    have "L ! j \<in> set L" using j len by simp
    then have "L ! j ! i \<in> set (mf_indexes nmf i)"
      using i unfolding L_def list_combs_set by blast
    then show "np_transpose L ! i ! j \<in> set (mf_indexes nmf i)"
      using i j len by (simp add: tr)
  qed
  have 4: "\<forall>t. length t = length nmf \<and> (\<forall>i<length nmf. t ! i \<in> set (mf_indexes nmf i))
            \<longrightarrow> (\<exists>j<prod_list nmf. column (np_transpose L) j = t)"
  proof (intro allI impI)
    fix t assume "length t = length nmf \<and> (\<forall>i<length nmf. t ! i \<in> set (mf_indexes nmf i))"
    then have "t \<in> set L" unfolding L_def list_combs_set .
    then obtain j where "j < length L" "L ! j = t" by (auto simp add: in_set_conv_nth)
    then show "\<exists>j<prod_list nmf. column (np_transpose L) j = t"
      using col len by auto
  qed
  have 5: "\<forall>j<prod_list nmf. \<forall>k<prod_list nmf.
             column (np_transpose L) j = column (np_transpose L) k \<longrightarrow> j = k"
    using col len list_combs_distinct[of nmf, folded L_def]
    by (simp add: nth_eq_iff_index_eq)
  show ?thesis using bc 1 2 3 4 5 by blast
qed

text \<open>
  The theorem at \<open>n_mf = [3, 2]\<close>, where the matrix is the one of the docstring: the six
  columns are the pairs of \<open>{0, 1, 2}\<close> and \<open>{3, 4}\<close>.
\<close>

theorem build_combs_cartesian_witness:
  "build_combs [3, 2] = Inr [[0, 0, 1, 1, 2, 2], [3, 4, 3, 4, 3, 4]]
   \<and> (\<exists>cbs. build_combs [3, 2] = Inr cbs \<and> length cbs = 2
         \<and> (\<exists>j<6. column cbs j = [2, 3]))"
proof -
  have e: "build_combs [3, 2] = Inr [[0, 0, 1, 1, 2, 2], [3, 4, 3, 4, 3, 4]]"
    by (simp add: build_combs_def np_cumsum_def np_transpose_def upt_rec)
  have m: "mf_indexes [3, 2] 0 = [0, 1, 2]" "mf_indexes [3, 2] (Suc 0) = [3, 4]"
    by (simp_all add: mf_indexes_def upt_rec)
  have t: "length [2, 3 :: nat] = length [3, 2 :: nat] \<and>
           (\<forall>i<length [3, 2 :: nat]. [2, 3] ! i \<in> set (mf_indexes [3, 2] i))"
    by (simp add: m less_Suc_eq)
  obtain cbs where c: "build_combs [3, 2] = Inr cbs" "length cbs = length [3, 2 :: nat]"
    and all: "\<forall>t. length t = length [3, 2 :: nat] \<and>
                (\<forall>i<length [3, 2 :: nat]. t ! i \<in> set (mf_indexes [3, 2] i))
                \<longrightarrow> (\<exists>j<prod_list [3, 2]. column cbs j = t)"
    using build_combs_cartesian[of "[3, 2]"] by auto
  from all t have "\<exists>j<prod_list [3, 2 :: nat]. column cbs j = [2, 3]" by blast
  then have "\<exists>j<6. column cbs j = [2, 3]" by simp
  with c e show ?thesis by auto
qed

text \<open>
  \<open>build_combs\<close> raises on the empty \<open>n_mf\<close>, and with an input that has no membership
  function it leaves an array without rows.
\<close>

theorem build_combs_degenerate:
  "build_combs [] = Inl IndexError \<and> build_combs [2, 0] = Inr []"
  by (simp add: build_combs_def np_cumsum_def np_transpose_def upt_rec)

section \<open>Premise membership\<close>

lemma unit_fraction:
  fixes q :: real
  assumes "0 \<le> q"
  shows "0 < 1 + q" and "1 / (1 + q) \<le> 1" and "1 / (1 + q) \<noteq> 0"
proof -
  show p: "0 < 1 + q" using assms by linarith
  then show "1 / (1 + q) \<le> 1" using assms by (simp add: divide_le_eq_1)
  show "1 / (1 + q) \<noteq> 0" using p by simp
qed

lemma premise_entry:
  assumes "s \<noteq> 0"
  shows "\<exists>p. 1 / (1 + np_power (((Fin x - Fin m) / Fin s) * ((Fin x - Fin m) / Fin s)) (Fin c)) = Fin p
             \<and> 0 \<le> p \<and> p \<le> 1 \<and> (p = 0 \<longleftrightarrow> x = m \<and> c < 0)"
proof -
  define d where "d = (x - m) / s"
  have d: "(Fin x - Fin m) / Fin s = Fin d"
    using assms by (simp add: float64_defs d_def)
  have dd: "Fin d * Fin d = Fin (d * d)" by (simp add: float64_defs)
  have d0: "d = 0 \<longleftrightarrow> x = m" using assms by (simp add: d_def)
  consider (c0) "c = 0" | (pos) "c \<noteq> 0" "d \<noteq> 0" | (zp) "c > 0" "d = 0" | (zn) "c < 0" "d = 0"
    by linarith
  then show ?thesis
  proof cases
    case c0
    then show ?thesis unfolding d dd
      by (intro exI[of _ "1 / 2"]) (simp add: float64_defs)
  next
    case pos
    then have "d * d > 0" by (auto simp add: zero_less_mult_iff)
    moreover note unit_fraction[OF powr_ge_zero[of "d * d" c]]
    ultimately show ?thesis using pos d0 unfolding d dd
      by (simp add: float64_defs)
  next
    case zp
    then show ?thesis using d0 unfolding d dd by (simp add: float64_defs)
  next
    case zn
    then show ?thesis using d0 unfolding d dd by (simp add: float64_defs inf_signed_def)
  qed
qed

lemma premise_row_nth:
  assumes "length mu = n" "length s = n" "length c = n" "length xe = n"
  shows "premise_row mu s c xe =
     Inr (map (\<lambda>k. 1 / (1 + np_power (((xe ! k - mu ! k) / s ! k) * ((xe ! k - mu ! k) / s ! k)) (c ! k))) [0..<n])"
proof -
  have "premise_row mu s c xe = Inr (map (\<lambda>y. 1 / (1 + y)) (map2 np_power (map (\<lambda>x. x * x) (map2 (/) (map2 (-) xe mu) s)) c))"
    using assms by (simp add: premise_row_def broadcast2_same)
  moreover have "map (\<lambda>y. 1 / (1 + y)) (map2 np_power (map (\<lambda>x. x * x) (map2 (/) (map2 (-) xe mu) s)) c)
     = map (\<lambda>k. 1 / (1 + np_power (((xe ! k - mu ! k) / s ! k) * ((xe ! k - mu ! k) / s ! k)) (c ! k))) [0..<n]"
    using assms by (intro nth_equalityI) simp_all
  ultimately show ?thesis by simp
qed

text \<open>
  Claim C8, as the code has it. For finite \<open>mu\<close>, \<open>s\<close>, \<open>c\<close> and inputs, with every \<open>s\<close>
  different from 0, layer 1 returns, and every membership value is a number of the closed
  interval from 0 to 1. The value 0 is attained: it is the value whenever the input equals
  \<open>mu\<close> and \<open>c\<close> is negative, since then \<open>d * d\<close> is 0 and \<open>0 ** c\<close> is \<open>+inf\<close>.
\<close>

theorem premise_membership_range:
  assumes "length ms = n" "length ss = n" "length cs = n" "length xs = n" "0 \<notin> set ss"
  shows "\<exists>pf. premise_row (map Fin ms) (map Fin ss) (map Fin cs) (map Fin xs) = Inr pf
           \<and> length pf = n
           \<and> (\<forall>k<n. \<exists>p. pf ! k = Fin p \<and> 0 \<le> p \<and> p \<le> 1
                          \<and> (xs ! k = ms ! k \<and> cs ! k < 0 \<longrightarrow> p = 0))"
proof -
  let ?pf = "map (\<lambda>k. 1 / (1 + np_power (((map Fin xs ! k - map Fin ms ! k) / map Fin ss ! k)
                * ((map Fin xs ! k - map Fin ms ! k) / map Fin ss ! k)) (map Fin cs ! k))) [0..<n]"
  have "premise_row (map Fin ms) (map Fin ss) (map Fin cs) (map Fin xs) = Inr ?pf"
    using assms by (intro premise_row_nth) simp_all
  moreover have "length ?pf = n" by simp
  moreover have "\<forall>k<n. \<exists>p. ?pf ! k = Fin p \<and> 0 \<le> p \<and> p \<le> 1
                          \<and> (xs ! k = ms ! k \<and> cs ! k < 0 \<longrightarrow> p = 0)"
  proof (intro allI impI)
    fix k assume k: "k < n"
    then have "ss ! k \<noteq> 0" using assms by (metis nth_mem)
    from premise_entry[OF this, of "xs ! k" "ms ! k" "cs ! k"] obtain p where
      e: "1 / (1 + np_power (((Fin (xs ! k) - Fin (ms ! k)) / Fin (ss ! k))
                * ((Fin (xs ! k) - Fin (ms ! k)) / Fin (ss ! k))) (Fin (cs ! k))) = Fin p"
      and b: "0 \<le> p" "p \<le> 1" "p = 0 \<longleftrightarrow> xs ! k = ms ! k \<and> cs ! k < 0"
      by blast
    have "?pf ! k = Fin p" using k assms e by simp
    with b show "\<exists>p. ?pf ! k = Fin p \<and> 0 \<le> p \<and> p \<le> 1
               \<and> (xs ! k = ms ! k \<and> cs ! k < 0 \<longrightarrow> p = 0)"
      by blast
  qed
  ultimately show ?thesis by blast
qed

theorem premise_membership_range_witness:
  "\<exists>pf. premise_row [Fin 2] [Fin 1] [Fin (- 1)] [Fin 2] = Inr pf \<and> length pf = 1
         \<and> pf ! 0 = Fin 0"
proof -
  obtain pf where pf: "premise_row [Fin 2] [Fin 1] [Fin (- 1)] [Fin 2] = Inr pf"
    "length pf = 1"
    and r: "\<forall>k<1. \<exists>p. pf ! k = Fin p \<and> 0 \<le> p \<and> p \<le> 1
                  \<and> ([2::real] ! k = [2] ! k \<and> [- 1::real] ! k < 0 \<longrightarrow> p = 0)"
    using premise_membership_range[of "[2]" 1 "[1]" "[- 1]" "[2]"] by auto
  from r have "pf ! 0 = Fin 0" by auto
  with pf show ?thesis by blast
qed

text \<open>With the input on \<open>mu\<close> and \<open>c = -1\<close> the membership value is 0.\<close>

theorem premise_membership_zero:
  "premise_row [Fin 0] [Fin 1] [Fin (- 1)] [Fin 0] = Inr [Fin 0]"
  by (simp add: premise_row_def broadcast2_def float64_defs inf_signed_def)

section \<open>Degenerate rule firing\<close>

lemmas eval_defs = premise_row_def broadcast2_def firing_row_def ratio_row_def np_sum_def
  np_prod_def matmul_def output_column_def assign_column_def
  firing_strengths_def broadcast2d_def py_slice_def Let_def expand_input_dataset_def
  build_combs_def np_cumsum_def np_transpose_def build_param_def np_reshape_def ANFIS_def
  n_var_def n_pf_def n_cf_def n_inputs_def inf_signed_def

text \<open>
  Claim C9. For the layout \<open>n_mf = [1]\<close> with one output, the parameter vector
  \<open>mu = 0, s = 1, c = -1, A = 0\<close> has length \<open>n_var\<close>; on the sample \<open>X = [[0]]\<close> the only rule
  has firing strength 0, the sum of the firing strengths is 0, and the forward pass does not
  raise: layer 3 divides 0 by 0 and the output of the model is \<open>NaN\<close>.
\<close>

theorem zero_firing_gives_nan:
  "length [Fin 0, Fin 1, Fin (- 1), Fin 0, Fin 0] = n_var (ANFIS [1] 1 None)
   \<and> build_combs [1] = Inr [[0]]
   \<and> expand_input_dataset [1] [[Fin 0]] = Inr [[Fin 0]]
   \<and> (\<exists>a'. build_param ((ANFIS [1] 1 None)\<lparr>self_combs := [[0]]\<rparr>)
               [Fin 0, Fin 1, Fin (- 1), Fin 0, Fin 0] = Inr a'
          \<and> firing_strengths a' [[Fin 0]] = Inr [[Fin 0]]
          \<and> np_sum [Fin 0] = 0
          \<and> forward_steps a' [[Fin 0]] [[Fin 0]] = Inr [[NaN]])"
proof -
  define a1 where "a1 = (ANFIS [1] 1 None)\<lparr>self_combs := [[0]], self_mu := [Fin 0],
      self_s := [Fin 1], self_c := [Fin (- 1)], self_A := [[Fin 0], [Fin 0]]\<rparr>"
  have bp: "build_param ((ANFIS [1] 1 None)\<lparr>self_combs := [[0]]\<rparr>)
               [Fin 0, Fin 1, Fin (- 1), Fin 0, Fin 0] = Inr a1"
    by (simp add: a1_def eval_defs)
  have fs: "firing_strengths a1 [[Fin 0]] = Inr [[Fin 0]]"
    by (simp add: a1_def eval_defs float64_defs)
  have oc: "output_column a1 [[1, Fin 0]] [[NaN]] (Suc 0) 0 = Inr [NaN]"
    by (simp add: a1_def eval_defs float64_defs)
  have rr: "ratio_row [Fin 0] = [NaN]"
    by (simp add: ratio_row_def np_sum_def float64_defs)
  have no: "n_outputs a1 = Suc 0" by (simp add: a1_def ANFIS_def)
  have fw: "forward_steps a1 [[Fin 0]] [[Fin 0]] = Inr [[NaN]]"
    unfolding forward_steps_def Let_def fs by (simp add: rr no oc)
  have s0: "np_sum [Fin 0] = 0" by (simp add: np_sum_def float64_defs)
  have len: "length [Fin 0, Fin 1, Fin (- 1), Fin 0, Fin 0] = n_var (ANFIS [1] 1 None)"
    by (simp add: eval_defs)
  have cb: "build_combs [1] = Inr [[0]]" by (simp add: eval_defs)
  have ex: "expand_input_dataset [1] [[Fin 0]] = Inr [[Fin 0]]" by (simp add: eval_defs)
  from bp fs fw s0 len cb ex show ?thesis by blast
qed


section \<open>The classification cost\<close>











section \<open>The swarm's best cost\<close>

lemma fless_trans: "(a::float64) < b \<Longrightarrow> b < c \<Longrightarrow> a < c"
  by (cases a; cases b; cases c) (simp_all add: less_float64_def)

text \<open>
  What the second part of a pass leaves in the state: the positions and velocities it was
  given, and a best cost that is the old one or a smaller one.
\<close>

lemma update_fields:
  assumes "epoch_update c rnd p e st pos vel = Inr st'"
  shows "agent_pos st' = pos \<and> agent_vel st' = vel \<and>
         (swarm_best_cost st' = swarm_best_cost st \<or> swarm_best_cost st' < swarm_best_cost st)"
proof -
  define abc where "abc = map2 (\<lambda>b (new, old). if b then new else old)
      (map2 (<) (cost_of c pos) (agent_best_cost st)) (zip (cost_of c pos) (agent_best_cost st))"
  define abp where "abp = map2 (\<lambda>b (new, old). if b then new else old)
      (map2 (<) (cost_of c pos) (agent_best_cost st)) (zip pos (agent_best_pos st))"
  from assms obtain idx where idx: "np_argmin abc = Inr idx"
    and r: "(if length abp \<le> idx then Inl IndexError
         else
           let improved = abc ! idx < swarm_best_cost st;
               infs = (if improved \<or> K c = 0 then informants st
                       else make_informants (informants_rand rnd (Suc e)) (nPop c) p);
               st1 = st\<lparr>agent_pos := pos, agent_vel := vel, agent_best_pos := abp,
                         agent_best_cost := abc,
                         swarm_best_cost :=
                           (if improved then abc ! idx else swarm_best_cost st),
                         swarm_best_idx := (if improved then idx else swarm_best_idx st),
                         informants := infs\<rparr>
           in if K c = 0
              then Inr (st1\<lparr>group_best_pos := replicate (nPop c) (swarm_best_pos st1)\<rparr>)
              else bind_err (group_best infs abp abc) (\<lambda>(g, pe).
                     Inr (st1\<lparr>group_best_pos := g, p_equal_g := pe\<rparr>))) = Inr st'"
    unfolding epoch_update_def Let_def abc_def abp_def bind_err_Inr by blast
  show ?thesis
  proof (cases "K c = 0")
    case True
    with r show ?thesis by (auto simp add: Let_def split: if_splits)
  next
    case False
    with r show ?thesis by (auto simp add: Let_def bind_err_Inr split: if_splits)
  qed
qed

lemma epoch_fields:
  assumes "PSO_epoch c rnd p cols e st = Inr st'"
  shows "epoch_move c rnd cols e st = Inr (agent_pos st', agent_vel st') \<and>
         (swarm_best_cost st' = swarm_best_cost st \<or> swarm_best_cost st' < swarm_best_cost st)"
proof -
  from assms obtain pos vel where m: "epoch_move c rnd cols e st = Inr (pos, vel)"
    and u: "epoch_update c rnd p e st pos vel = Inr st'"
    by (auto simp add: PSO_epoch_def bind_err_Inr)
  from update_fields[OF u] m show ?thesis by simp
qed

lemma loop_swarm_best_cost:
  "PSO_loop c rnd p cols e n st = Inr st' \<Longrightarrow>
     swarm_best_cost st' = swarm_best_cost st \<or> swarm_best_cost st' < swarm_best_cost st"
proof (induction n arbitrary: e st)
  case 0
  then show ?case by simp
next
  case (Suc n)
  then obtain s1 where s1: "PSO_epoch c rnd p cols e st = Inr s1"
    and r: "PSO_loop c rnd p cols (Suc e) n s1 = Inr st'"
    by (auto simp add: bind_err_Inr)
  from epoch_fields[OF s1] Suc.IH[OF r] show ?case
    by (auto intro: fless_trans)
qed

text \<open>The example run, evaluated step by step.\<close>

lemmas pso_eval_defs = nVar_def vel_max_def vel_min_def w_coef_def cmax_def p_informant_def
  work_LB_def work_UB_def cost_of_def rand_matrix_def mat_vec_def mat_mat_def mat_col_def
  norm_rows_def np_argmin_def int_columns_def on_columns_def clamp_velocity_def
  clip_position_def np_fmax_def np_fmin_def np_sum_def sum_of_squares_def Let_def
  round_half_even_def inf_signed_def hypersphere_point_def random_back_conf_def
  hyperbolic_conf_def mixed_conf_def swarm_best_pos_def initial_pos_def initial_vel_def

lemma example_init: "PSO_init example_args example_random = Inr (Fin 0, [], example_state)"
  by (simp add: PSO_init_def example_args_def example_random_def example_state_def
      pso_eval_defs float64_defs)

lemma example_move:
  "epoch_move example_args example_random [] 0 example_state
     = Inr ([[Fin (1 / 4)]], [[Fin (- 1 / 4)]])"
  by (simp add: epoch_move_def example_args_def example_random_def example_state_def
      pso_eval_defs float64_defs)

lemma example_update:
  "epoch_update example_args example_random (Fin 0) 0 example_state
       [[Fin (1 / 4)]] [[Fin (- 1 / 4)]]
     = Inr example_state_next"
  by (simp add: epoch_update_def example_args_def example_random_def example_state_def
      example_state_next_def pso_eval_defs float64_defs)

lemma example_epoch:
  "PSO_epoch example_args example_random (Fin 0) [] 0 example_state = Inr example_state_next"
  unfolding PSO_epoch_def by (simp only: example_move bind_err_simps prod.case example_update)

lemma example_loop:
  "PSO_loop example_args example_random (Fin 0) [] 0 1 example_state = Inr example_state_next"
proof -
  have "PSO_loop example_args example_random (Fin 0) [] 0 (Suc 0) example_state
          = Inr example_state_next"
    by (simp only: PSO_loop.simps example_epoch bind_err_simps)
  then show ?thesis by simp
qed

text \<open>
  Claim C4. Whenever a pass of the main loop completes, the best cost of the swarm is the
  one before the pass or a strictly smaller one, for all arguments of \<open>PSO\<close>, every
  realisation of the random numbers and every state; hence the same holds between the
  start and the end of any number of consecutive passes. A \<open>NaN\<close> best cost is never
  replaced, as no cost compares smaller than it.
\<close>

theorem swarm_best_cost_never_increases:
  "(PSO_epoch c rnd p cols e st = Inr st' \<longrightarrow>
      swarm_best_cost st' = swarm_best_cost st \<or> swarm_best_cost st' < swarm_best_cost st)
   \<and> (PSO_loop c rnd p cols e n st = Inr st'' \<longrightarrow>
      swarm_best_cost st'' = swarm_best_cost st \<or> swarm_best_cost st'' < swarm_best_cost st)"
  using epoch_fields loop_swarm_best_cost by blast

text \<open>In the example run the pass lowers the best cost from \<open>1/4\<close> to \<open>1/16\<close>.\<close>

theorem swarm_best_cost_never_increases_witness:
  "PSO_epoch example_args example_random (Fin 0) [] 0 example_state = Inr example_state_next
   \<and> PSO_loop example_args example_random (Fin 0) [] 0 1 example_state
       = Inr example_state_next
   \<and> swarm_best_cost example_state = Fin (1 / 4)
   \<and> swarm_best_cost example_state_next = Fin (1 / 16)
   \<and> swarm_best_cost example_state_next < swarm_best_cost example_state"
proof -
  have v: "swarm_best_cost example_state = Fin (1 / 4)"
    "swarm_best_cost example_state_next = Fin (1 / 16)"
    by (simp_all add: example_state_def example_state_next_def)
  have ne: "swarm_best_cost example_state_next \<noteq> swarm_best_cost example_state"
    by (simp add: v)
  from swarm_best_cost_never_increases[of example_args example_random "Fin 0" "[]" 0
      example_state example_state_next 1 example_state_next]
    example_epoch example_loop ne v
  show ?thesis by simp
qed

section \<open>Velocities after the confinement\<close>

text \<open>
  The run with the variable pinned by \<open>LB = UB = 1\<close> and the hyperbolic confinement. The
  largest allowed velocity is 0, the agent stands on the bound with the velocity 0, and the
  temporary position is not strictly inside the bounds, so the velocity is replaced by the
  one of \<open>hyperbolic_conf\<close>, which is \<open>0 / (1 + |0 / (1 - 1)|)\<close>.
\<close>

lemma pinned_init:
  "PSO_init pinned_variable_args example_random =
     Inr (Fin 0, [],
       \<lparr>agent_pos = [[Fin 1]], agent_vel = [[Fin 0]], agent_best_pos = [[Fin 1]],
        agent_best_cost = [Fin 1], swarm_best_cost = Fin 1, swarm_best_idx = 0,
        group_best_pos = [[Fin 1]], p_equal_g = [Fin (3 / 4)], informants = []\<rparr>)"
  by (simp add: PSO_init_def pinned_variable_args_def example_args_def example_random_def
      pso_eval_defs float64_defs)

lemma pinned_move:
  "epoch_move pinned_variable_args example_random [] 0
       \<lparr>agent_pos = [[Fin 1]], agent_vel = [[Fin 0]], agent_best_pos = [[Fin 1]],
        agent_best_cost = [Fin 1], swarm_best_cost = Fin 1, swarm_best_idx = 0,
        group_best_pos = [[Fin 1]], p_equal_g = [Fin (3 / 4)], informants = []\<rparr>
     = Inr ([[Fin 1]], [[NaN]])"
  by (simp add: epoch_move_def pinned_variable_args_def example_args_def example_random_def
      pso_eval_defs float64_defs)

lemma pinned_update:
  "epoch_update pinned_variable_args example_random (Fin 0) 0
       \<lparr>agent_pos = [[Fin 1]], agent_vel = [[Fin 0]], agent_best_pos = [[Fin 1]],
        agent_best_cost = [Fin 1], swarm_best_cost = Fin 1, swarm_best_idx = 0,
        group_best_pos = [[Fin 1]], p_equal_g = [Fin (3 / 4)], informants = []\<rparr>
       [[Fin 1]] [[NaN]]
     = Inr \<lparr>agent_pos = [[Fin 1]], agent_vel = [[NaN]], agent_best_pos = [[Fin 1]],
        agent_best_cost = [Fin 1], swarm_best_cost = Fin 1, swarm_best_idx = 0,
        group_best_pos = [[Fin 1]], p_equal_g = [Fin (3 / 4)], informants = []\<rparr>"
  by (simp add: epoch_update_def pinned_variable_args_def example_args_def example_random_def
      pso_eval_defs float64_defs)

text \<open>
  Claim C10. The claim does not hold on this run: \<open>vel_max\<close> is \<open>[0]\<close>, and after the one
  pass the velocity of the agent is \<open>NaN\<close>, which is not between \<open>-vel_max\<close> and \<open>vel_max\<close>.
\<close>

theorem pinned_variable_velocity_nan:
  "vel_max pinned_variable_args = [Fin 0]
   \<and> PSO_run pinned_variable_args example_random
       = Inr \<lparr>agent_pos = [[Fin 1]], agent_vel = [[NaN]], agent_best_pos = [[Fin 1]],
              agent_best_cost = [Fin 1], swarm_best_cost = Fin 1, swarm_best_idx = 0,
              group_best_pos = [[Fin 1]], p_equal_g = [Fin (3 / 4)], informants = []\<rparr>"
proof -
  have e: "epochs pinned_variable_args = Suc 0"
    by (simp add: pinned_variable_args_def example_args_def)
  have v: "vel_max pinned_variable_args = [Fin 0]"
    by (simp add: vel_max_def pinned_variable_args_def example_args_def float64_defs)
  have "PSO_run pinned_variable_args example_random
       = Inr \<lparr>agent_pos = [[Fin 1]], agent_vel = [[NaN]], agent_best_pos = [[Fin 1]],
              agent_best_cost = [Fin 1], swarm_best_cost = Fin 1, swarm_best_idx = 0,
              group_best_pos = [[Fin 1]], p_equal_g = [Fin (3 / 4)], informants = []\<rparr>"
    unfolding PSO_run_def e
    by (simp only: pinned_init bind_err_simps prod.case PSO_loop.simps PSO_epoch_def
        pinned_move pinned_update)
  with v show ?thesis by simp
qed

section \<open>Bounds that are not checked\<close>















section \<open>Positions after a pass\<close>

lemma fle_trans: "(a::float64) \<le> b \<Longrightarrow> b \<le> c \<Longrightarrow> a \<le> c"
  by (cases a; cases b; cases c) (auto simp add: less_eq_float64_def)

lemma fle_not_nan: "(a::float64) \<le> b \<Longrightarrow> a \<noteq> NaN \<and> b \<noteq> NaN"
  by (cases a; cases b) (simp_all add: less_eq_float64_def)

lemma np_ceil_ge: "l \<noteq> NaN \<Longrightarrow> l \<le> np_ceil l"
proof (cases l)
  case (Fin a)
  have "a = of_int \<lceil>a\<rceil> \<or> a < of_int \<lceil>a\<rceil>" using le_of_int_ceiling[of a] by linarith
  with Fin show ?thesis by (simp add: less_eq_float64_def)
qed (simp_all add: less_eq_float64_def)

lemma np_floor_le: "u \<noteq> NaN \<Longrightarrow> np_floor u \<le> u"
proof (cases u)
  case (Fin a)
  have "of_int \<lfloor>a\<rfloor> = a \<or> of_int \<lfloor>a\<rfloor> < a" using of_int_floor_le[of a] by linarith
  with Fin show ?thesis by (simp add: less_eq_float64_def)
qed (simp_all add: less_eq_float64_def)

text \<open>The two clips \<open>fmin(fmax(x, l), u)\<close> leave a value between \<open>l\<close> and \<open>u\<close>, also for a \<open>NaN\<close>.\<close>

lemma clip_between:
  "(l::float64) \<le> u \<Longrightarrow>
     l \<le> np_fmin (np_fmax x l) u \<and> np_fmin (np_fmax x l) u \<le> u"
  by (cases l; cases u; cases x)
    (auto simp add: np_fmax_def np_fmin_def less_eq_float64_def less_float64_def)

lemma clip_position_nth:
  assumes "row \<in> set (clip_position c cols M)" and "k < length row"
  shows "k < length (work_LB c) \<and> k < length (work_UB c) \<and>
         (\<exists>x. row ! k =
            (if k \<in> set cols
             then np_fmin (np_fmax (np_fmin (np_fmax x (work_LB c ! k)) (work_UB c ! k))
                             (np_ceil (work_LB c ! k)))
                    (np_floor (work_UB c ! k))
             else np_fmin (np_fmax x (work_LB c ! k)) (work_UB c ! k)))"
  using assms
  by (auto simp add: clip_position_def on_columns_def mat_vec_def Let_def)

lemma clip_position_within:
  assumes le: "\<And>k. k < nVar c \<Longrightarrow> work_LB c ! k \<le> work_UB c ! k"
    and int: "\<And>k. k \<in> set cols \<Longrightarrow> k < nVar c \<Longrightarrow>
                np_ceil (work_LB c ! k) \<le> np_floor (work_UB c ! k)"
  shows "within_bounds c (clip_position c cols M)"
  unfolding within_bounds_def
proof (intro ballI allI impI)
  fix row k
  assume row: "row \<in> set (clip_position c cols M)" and k: "k < length row"
  from clip_position_nth[OF row k] obtain x where
    kl: "k < length (work_LB c)"
    and v: "row ! k =
            (if k \<in> set cols
             then np_fmin (np_fmax (np_fmin (np_fmax x (work_LB c ! k)) (work_UB c ! k))
                             (np_ceil (work_LB c ! k)))
                    (np_floor (work_UB c ! k))
             else np_fmin (np_fmax x (work_LB c ! k)) (work_UB c ! k))"
    by blast
  from kl have kn: "k < nVar c" by (simp add: work_LB_def nVar_def split: if_splits)
  note lu = le[OF kn]
  show "work_LB c ! k \<le> row ! k \<and> row ! k \<le> work_UB c ! k"
  proof (cases "k \<in> set cols")
    case False
    with v clip_between[OF lu] show ?thesis by simp
  next
    case True
    from clip_between[OF int[OF True kn]] True v
    have b: "np_ceil (work_LB c ! k) \<le> row ! k" "row ! k \<le> np_floor (work_UB c ! k)"
      by simp_all
    from fle_not_nan[OF lu] have "work_LB c ! k \<le> np_ceil (work_LB c ! k)"
      "np_floor (work_UB c ! k) \<le> work_UB c ! k"
      by (simp_all add: np_ceil_ge np_floor_le)
    with b show ?thesis by (blast intro: fle_trans)
  qed
qed

lemma epoch_move_clipped:
  "epoch_move c rnd cols e st = Inr (pos, vel) \<Longrightarrow> \<exists>M. pos = clip_position c cols M"
  unfolding epoch_move_def Let_def bind_err_Inr by auto

text \<open>
  Claim C7, as the program has it. When every lower bound is at most its upper bound (the
  bounds the loop works with: 0 and 1 under \<open>normalize\<close>) and, for every integer variable,
  the ceiling of the lower bound is at most the floor of the upper bound, then after every
  completed pass of the loop every component of every position lies between its bounds,
  ends included.
\<close>

theorem positions_within_bounds:
  assumes "\<And>k. k < nVar c \<Longrightarrow> work_LB c ! k \<le> work_UB c ! k"
    and "\<And>k. k \<in> set cols \<Longrightarrow> k < nVar c \<Longrightarrow>
           np_ceil (work_LB c ! k) \<le> np_floor (work_UB c ! k)"
    and "PSO_epoch c rnd p cols e st = Inr st'"
  shows "within_bounds c (agent_pos st')"
proof -
  from epoch_fields[OF assms(3)] epoch_move_clipped obtain M where
    "agent_pos st' = clip_position c cols M" by blast
  with clip_position_within[of c cols M] assms(1,2) show ?thesis by simp
qed

text \<open>The run with the integer variable on \<open>[0, 5/2]\<close>.\<close>

lemma integer_init:
  "PSO_init integer_bounds_args example_random =
     Inr (Fin 0, [0],
       \<lparr>agent_pos = [[Fin 1]], agent_vel = [[Fin (- 3 / 8)]],
        agent_best_pos = [[Fin 1]], agent_best_cost = [Fin 1],
        swarm_best_cost = Fin 1, swarm_best_idx = 0,
        group_best_pos = [[Fin 1]], p_equal_g = [Fin (3 / 4)], informants = []\<rparr>)"
  by (simp add: PSO_init_def integer_bounds_args_def example_args_def example_random_def
      pso_eval_defs float64_defs)

lemma integer_move:
  "epoch_move integer_bounds_args example_random [0] 0
       \<lparr>agent_pos = [[Fin 1]], agent_vel = [[Fin (- 3 / 8)]],
        agent_best_pos = [[Fin 1]], agent_best_cost = [Fin 1],
        swarm_best_cost = Fin 1, swarm_best_idx = 0,
        group_best_pos = [[Fin 1]], p_equal_g = [Fin (3 / 4)], informants = []\<rparr>
     = Inr ([[Fin 1]], [[Fin (- 3 / 8)]])"
  by (simp add: epoch_move_def integer_bounds_args_def example_args_def example_random_def
      pso_eval_defs float64_defs)

lemma integer_update:
  "epoch_update integer_bounds_args example_random (Fin 0) 0
       \<lparr>agent_pos = [[Fin 1]], agent_vel = [[Fin (- 3 / 8)]],
        agent_best_pos = [[Fin 1]], agent_best_cost = [Fin 1],
        swarm_best_cost = Fin 1, swarm_best_idx = 0,
        group_best_pos = [[Fin 1]], p_equal_g = [Fin (3 / 4)], informants = []\<rparr>
       [[Fin 1]] [[Fin (- 3 / 8)]]
     = Inr \<lparr>agent_pos = [[Fin 1]], agent_vel = [[Fin (- 3 / 8)]],
        agent_best_pos = [[Fin 1]], agent_best_cost = [Fin 1],
        swarm_best_cost = Fin 1, swarm_best_idx = 0,
        group_best_pos = [[Fin 1]], p_equal_g = [Fin (3 / 4)], informants = []\<rparr>"
  by (simp add: epoch_update_def integer_bounds_args_def example_args_def example_random_def
      pso_eval_defs float64_defs)

theorem positions_within_bounds_witness:
  "work_LB integer_bounds_args = [Fin 0] \<and> work_UB integer_bounds_args = [Fin (5 / 2)]
   \<and> np_ceil (Fin 0) = Fin 0 \<and> np_floor (Fin (5 / 2)) = Fin 2
   \<and> PSO_init integer_bounds_args example_random =
       Inr (Fin 0, [0],
         \<lparr>agent_pos = [[Fin 1]], agent_vel = [[Fin (- 3 / 8)]],
          agent_best_pos = [[Fin 1]], agent_best_cost = [Fin 1],
          swarm_best_cost = Fin 1, swarm_best_idx = 0,
          group_best_pos = [[Fin 1]], p_equal_g = [Fin (3 / 4)], informants = []\<rparr>)
   \<and> PSO_epoch integer_bounds_args example_random (Fin 0) [0] 0
         \<lparr>agent_pos = [[Fin 1]], agent_vel = [[Fin (- 3 / 8)]],
          agent_best_pos = [[Fin 1]], agent_best_cost = [Fin 1],
          swarm_best_cost = Fin 1, swarm_best_idx = 0,
          group_best_pos = [[Fin 1]], p_equal_g = [Fin (3 / 4)], informants = []\<rparr>
       = Inr \<lparr>agent_pos = [[Fin 1]], agent_vel = [[Fin (- 3 / 8)]],
          agent_best_pos = [[Fin 1]], agent_best_cost = [Fin 1],
          swarm_best_cost = Fin 1, swarm_best_idx = 0,
          group_best_pos = [[Fin 1]], p_equal_g = [Fin (3 / 4)], informants = []\<rparr>
   \<and> within_bounds integer_bounds_args [[Fin 1]]"
proof -
  define s where "s = \<lparr>agent_pos = [[Fin 1]], agent_vel = [[Fin (- 3 / 8)]],
          agent_best_pos = [[Fin 1]], agent_best_cost = [Fin 1],
          swarm_best_cost = Fin 1, swarm_best_idx = 0,
          group_best_pos = [[Fin 1]], p_equal_g = [Fin (3 / 4)], informants = []\<rparr>"
  have b: "work_LB integer_bounds_args = [Fin 0]"
    "work_UB integer_bounds_args = [Fin (5 / 2)]" "nVar integer_bounds_args = 1"
    by (simp_all add: work_LB_def work_UB_def nVar_def integer_bounds_args_def
        example_args_def)
  have r: "np_ceil (Fin 0) = Fin 0" "np_floor (Fin (5 / 2)) = Fin 2" by simp_all
  have h1: "\<And>k. k < nVar integer_bounds_args \<Longrightarrow>
      work_LB integer_bounds_args ! k \<le> work_UB integer_bounds_args ! k"
    by (simp add: b less_eq_float64_def less_float64_def)
  have h2: "\<And>k. k \<in> set [0] \<Longrightarrow> k < nVar integer_bounds_args \<Longrightarrow>
      np_ceil (work_LB integer_bounds_args ! k) \<le> np_floor (work_UB integer_bounds_args ! k)"
    by (simp add: b less_eq_float64_def less_float64_def)
  have ep: "PSO_epoch integer_bounds_args example_random (Fin 0) [0] 0 s = Inr s"
    unfolding PSO_epoch_def s_def
    by (simp only: integer_move bind_err_simps prod.case integer_update)
  have "within_bounds integer_bounds_args (agent_pos s)"
    using positions_within_bounds[of integer_bounds_args "[0]" example_random "Fin 0" 0 s s]
      h1 h2 ep by blast
  then have w: "within_bounds integer_bounds_args [[Fin 1]]" by (simp add: s_def)
  from b r integer_init ep[unfolded s_def] w show ?thesis by simp
qed

text \<open>The run with the integer variable on \<open>[1/4, 3/4]\<close>, which holds no integer.\<close>

lemma fractional_init:
  "PSO_init fractional_bounds_args example_random =
     Inr (Fin 0, [0],
       \<lparr>agent_pos = [[Fin 0]], agent_vel = [[Fin (1 / 4)]],
        agent_best_pos = [[Fin 0]], agent_best_cost = [Fin 0],
        swarm_best_cost = Fin 0, swarm_best_idx = 0,
        group_best_pos = [[Fin 0]], p_equal_g = [Fin (3 / 4)], informants = []\<rparr>)"
  by (simp add: PSO_init_def fractional_bounds_args_def example_args_def example_random_def
      pso_eval_defs float64_defs)

lemma fractional_move:
  "epoch_move fractional_bounds_args example_random [0] 0
       \<lparr>agent_pos = [[Fin 0]], agent_vel = [[Fin (1 / 4)]],
        agent_best_pos = [[Fin 0]], agent_best_cost = [Fin 0],
        swarm_best_cost = Fin 0, swarm_best_idx = 0,
        group_best_pos = [[Fin 0]], p_equal_g = [Fin (3 / 4)], informants = []\<rparr>
     = Inr ([[Fin 0]], [[Fin (- 1 / 8)]])"
  by (simp add: epoch_move_def fractional_bounds_args_def example_args_def example_random_def
      pso_eval_defs float64_defs)

lemma fractional_update:
  "epoch_update fractional_bounds_args example_random (Fin 0) 0
       \<lparr>agent_pos = [[Fin 0]], agent_vel = [[Fin (1 / 4)]],
        agent_best_pos = [[Fin 0]], agent_best_cost = [Fin 0],
        swarm_best_cost = Fin 0, swarm_best_idx = 0,
        group_best_pos = [[Fin 0]], p_equal_g = [Fin (3 / 4)], informants = []\<rparr>
       [[Fin 0]] [[Fin (- 1 / 8)]]
     = Inr \<lparr>agent_pos = [[Fin 0]], agent_vel = [[Fin (- 1 / 8)]],
        agent_best_pos = [[Fin 0]], agent_best_cost = [Fin 0],
        swarm_best_cost = Fin 0, swarm_best_idx = 0,
        group_best_pos = [[Fin 0]], p_equal_g = [Fin (3 / 4)], informants = []\<rparr>"
  by (simp add: epoch_update_def fractional_bounds_args_def example_args_def
      example_random_def pso_eval_defs float64_defs)

text \<open>
  Claim C7 does not hold for all bounds: with \<open>IntVar = 'all'\<close>, \<open>LB = [1/4]\<close> and
  \<open>UB = [3/4]\<close> the second clip is to \<open>ceil(1/4) = 1\<close> from below and then to
  \<open>floor(3/4) = 0\<close> from above, and the position after the pass is 0, below \<open>LB\<close>.
\<close>

theorem integer_clip_leaves_bounds:
  "PSO_run fractional_bounds_args example_random
     = Inr \<lparr>agent_pos = [[Fin 0]], agent_vel = [[Fin (- 1 / 8)]],
        agent_best_pos = [[Fin 0]], agent_best_cost = [Fin 0],
        swarm_best_cost = Fin 0, swarm_best_idx = 0,
        group_best_pos = [[Fin 0]], p_equal_g = [Fin (3 / 4)], informants = []\<rparr>
   \<and> LB fractional_bounds_args = [Fin (1 / 4)]
   \<and> UB fractional_bounds_args = [Fin (3 / 4)]
   \<and> \<not> within_bounds fractional_bounds_args [[Fin 0]]"
proof -
  have e: "epochs fractional_bounds_args = Suc 0"
    and b: "LB fractional_bounds_args = [Fin (1 / 4)]" "UB fractional_bounds_args = [Fin (3 / 4)]"
    by (simp_all add: fractional_bounds_args_def example_args_def)
  have r: "PSO_run fractional_bounds_args example_random
     = Inr \<lparr>agent_pos = [[Fin 0]], agent_vel = [[Fin (- 1 / 8)]],
        agent_best_pos = [[Fin 0]], agent_best_cost = [Fin 0],
        swarm_best_cost = Fin 0, swarm_best_idx = 0,
        group_best_pos = [[Fin 0]], p_equal_g = [Fin (3 / 4)], informants = []\<rparr>"
    unfolding PSO_run_def e
    by (simp only: fractional_init bind_err_simps prod.case PSO_loop.simps PSO_epoch_def
        fractional_move fractional_update)
  have n: "\<not> within_bounds fractional_bounds_args [[Fin 0]]"
    by (simp add: within_bounds_def work_LB_def work_UB_def fractional_bounds_args_def
        example_args_def less_eq_float64_def less_float64_def)
  from r b n show ?thesis by simp
qed

end
